theory Spec2Isabelle
  imports Complex_Main "HOL-Library.Log_Nat" "HOL-Library.Monad_Syntax"
    "HOL-Library.Product_Lexorder"
begin

section \<open>JavaScript values\<close>

text \<open>
  The sources are TypeScript. A JavaScript \<open>number\<close> that the code only ever fills with
  integers (day counts, scores, indices, time values) is an \<open>int\<close>. A \<open>number\<close>
  that holds a longitude, a Julian day, an hour or a random draw is an IEEE 754 binary64
  value: the model keeps it as the real number it denotes, and every arithmetic operation on
  such numbers rounds its exact result to the nearest binary64 value, ties to even
  (\<open>round64\<close>). Binary64 has 53 significant bits and exponents from -1022; below that
  the spacing stays \<open>2^-1074\<close>. Infinities, NaN and the sign of zero are not modelled: the
  divisors in the code are non-zero constants, and overflow needs magnitudes of
  \<open>2^1024\<close>.
\<close>

text \<open>Round to the nearest integer, ties to the even one.\<close>

definition rne :: "real \<Rightarrow> int" where
  "rne r =
     (let f = \<lfloor>r\<rfloor>; d = r - of_int f
      in if d < 1 / 2 then f else if 1 / 2 < d then f + 1 else if even f then f else f + 1)"

text \<open>
  The binary exponent of a non-zero number: the \<open>e\<close> with \<open>2^e \<le> |x| < 2^(e + 1)\<close>,
  read off the bit length of the integer part or, below 1, of the reciprocal.
\<close>

definition expo :: "real \<Rightarrow> int" where
  "expo x =
     (if 1 \<le> \<bar>x\<bar> then bitlen \<lfloor>\<bar>x\<bar>\<rfloor> - 1 else - bitlen (\<lceil>1 / \<bar>x\<bar>\<rceil> - 1))"

definition round64 :: "real \<Rightarrow> real" where
  "round64 x =
     (if x = 0 then 0
      else (let q = 2 powi (max (expo x) (- 1022) - 52) in of_int (rne (x / q)) * q))"

text \<open>The operators \<open>+\<close>, \<open>-\<close>, \<open>*\<close> and \<open>/\<close> of JavaScript on such numbers.\<close>

definition fadd :: "real \<Rightarrow> real \<Rightarrow> real" where
  "fadd x y = round64 (x + y)"

definition fsub :: "real \<Rightarrow> real \<Rightarrow> real" where
  "fsub x y = round64 (x - y)"

definition fmul :: "real \<Rightarrow> real \<Rightarrow> real" where
  "fmul x y = round64 (x * y)"

definition fdiv :: "real \<Rightarrow> real \<Rightarrow> real" where
  "fdiv x y = round64 (x / y)"

text \<open>
  Reading an array outside its bounds gives \<open>undefined\<close> in JavaScript: \<open>js_index\<close>
  returns \<open>None\<close> there.
\<close>

definition js_index :: "'a list \<Rightarrow> int \<Rightarrow> 'a option" where
  "js_index xs i = (if 0 \<le> i \<and> i < int (length xs) then Some (xs ! nat i) else None)"

section \<open>Calendrical derivation (sweph-poc: calculateTithi, calculateYoga)\<close>

record Tithi =
  tithi :: int
  tithiName :: "string option"
  paksha :: string

definition tithiNames :: "string list" where
  "tithiNames =
    [''Pratipada'', ''Dwitiya'', ''Tritiya'', ''Chaturthi'', ''Panchami'',
     ''Shashthi'', ''Saptami'', ''Ashtami'', ''Navami'', ''Dashami'',
     ''Ekadashi'', ''Dwadashi'', ''Trayodashi'', ''Chaturdashi'', ''Purnima'',
     ''Pratipada'', ''Dwitiya'', ''Tritiya'', ''Chaturthi'', ''Panchami'',
     ''Shashthi'', ''Saptami'', ''Ashtami'', ''Navami'', ''Dashami'',
     ''Ekadashi'', ''Dwadashi'', ''Trayodashi'', ''Chaturdashi'', ''Amavasya'']"

text \<open>
  \<^verbatim>\<open>let angle = moonLongitude - sunLongitude;
  if (angle < 0) angle += 360;
  const tithi = Math.floor(angle / 12) + 1;
  const paksha = tithi <= 15 ? 'Shukla' : 'Krishna';
  return { tithi, tithiName: tithiNames[tithi - 1], paksha };\<close>
\<close>

definition calculateTithi :: "real \<Rightarrow> real \<Rightarrow> Tithi" where
  "calculateTithi sunLongitude moonLongitude =
     (let angle0 = fsub moonLongitude sunLongitude;
          angle = (if angle0 < 0 then fadd angle0 360 else angle0);
          t = \<lfloor>fdiv angle 12\<rfloor> + 1;
          p = (if t \<le> 15 then ''Shukla'' else ''Krishna'')
      in \<lparr>tithi = t, tithiName = js_index tithiNames (t - 1), paksha = p\<rparr>)"

text \<open>
  The calculator script that \<open>sweph-service.ts\<close> writes out has its own copy, which
  names the tithi within its paksha from a table of fifteen names.
\<close>

definition tithiNames_script :: "string list" where
  "tithiNames_script =
    [''Pratipada'', ''Dwitiya'', ''Tritiya'', ''Chaturthi'', ''Panchami'',
     ''Shashthi'', ''Saptami'', ''Ashtami'', ''Navami'', ''Dashami'',
     ''Ekadashi'', ''Dwadashi'', ''Trayodashi'', ''Chaturdashi'', ''Purnima/Amavasya'']"

definition calculateTithi_script :: "real \<Rightarrow> real \<Rightarrow> Tithi" where
  "calculateTithi_script sunLongitude moonLongitude =
     (let angle0 = fsub moonLongitude sunLongitude;
          angle = (if angle0 < 0 then fadd angle0 360 else angle0);
          t = \<lfloor>fdiv angle 12\<rfloor> + 1;
          p = (if t \<le> 15 then ''Shukla'' else ''Krishna'');
          tithiWithinPaksha = (if t \<le> 15 then t else t - 15)
      in \<lparr>tithi = t, tithiName = js_index tithiNames_script (tithiWithinPaksha - 1),
          paksha = p\<rparr>)"

record Yoga =
  yoga :: int
  yogaName :: "string option"

definition yogaNames :: "string list" where
  "yogaNames =
    [''Vishkumbha'', ''Preeti'', ''Ayushman'', ''Saubhagya'', ''Shobhana'',
     ''Atiganda'', ''Sukarma'', ''Dhriti'', ''Shoola'', ''Ganda'',
     ''Vriddhi'', ''Dhruva'', ''Vyaghata'', ''Harshana'', ''Vajra'',
     ''Siddhi'', ''Vyatipata'', ''Variyan'', ''Parigha'', ''Shiva'',
     ''Siddha'', ''Sadhya'', ''Shubha'', ''Shukla'', ''Brahma'',
     ''Indra'', ''Vaidhriti'']"

text \<open>
  \<^verbatim>\<open>let sum = sunLongitude + moonLongitude;
  if (sum >= 360) sum -= 360;
  const yoga = Math.floor(sum / (360/27)) + 1;\<close>
\<close>

definition calculateYoga :: "real \<Rightarrow> real \<Rightarrow> Yoga" where
  "calculateYoga sunLongitude moonLongitude =
     (let sum0 = fadd sunLongitude moonLongitude;
          sum = (if sum0 \<ge> 360 then fsub sum0 360 else sum0);
          y = \<lfloor>fdiv sum (fdiv 360 27)\<rfloor> + 1
      in \<lparr>yoga = y, yogaName = js_index yogaNames (y - 1)\<rparr>)"

text \<open>
  The specification's \<open>mod 360\<close>, on exact numbers: the representative of an angle in
  \<open>[0, 360)\<close>.
\<close>

definition mod360 :: "real \<Rightarrow> real" where
  "mod360 x = x - 360 * of_int \<lfloor>x / 360\<rfloor>"

section \<open>Position snapshot builder (sweph-poc: calculatePlanetaryPositions)\<close>

definition nakshtraNames :: "string list" where
  "nakshtraNames =
    [''Ashwini'', ''Bharani'', ''Krittika'', ''Rohini'', ''Mrigashira'', ''Ardra'',
     ''Punarvasu'', ''Pushya'', ''Ashlesha'', ''Magha'', ''Purva Phalguni'', ''Uttara Phalguni'',
     ''Hasta'', ''Chitra'', ''Swati'', ''Vishakha'', ''Anuradha'', ''Jyeshtha'',
     ''Mula'', ''Purva Ashadha'', ''Uttara Ashadha'', ''Shravana'', ''Dhanishta'', ''Shatabhisha'',
     ''Purva Bhadrapada'', ''Uttara Bhadrapada'', ''Revati'']"

definition zodiacNames :: "string list" where
  "zodiacNames =
    [''Aries'', ''Taurus'', ''Gemini'', ''Cancer'', ''Leo'', ''Virgo'',
     ''Libra'', ''Scorpio'', ''Sagittarius'', ''Capricorn'', ''Aquarius'', ''Pisces'']"

text \<open>
  \<open>degreesInSign\<close> is \<open>(longitude % 30).toFixed(2)\<close> in the source; the model keeps the
  number and leaves its two-decimal rendering out. JavaScript's \<open>%\<close> truncates towards zero,
  and its result is exact (the remainder of two binary64 values is a binary64 value).
\<close>

definition js_fmod :: "real \<Rightarrow> real \<Rightarrow> real" where
  "js_fmod x m = (if x \<ge> 0 then x - m * of_int \<lfloor>x / m\<rfloor> else x + m * of_int \<lfloor>- x / m\<rfloor>)"

record PlanetaryPosition =
  planet :: string
  longitude :: real
  zodiacSign :: "string option"
  degreesInSign :: real
  nakshatra :: "string option"
  nakshatra_num :: int

text \<open>
  The body of the \<open>planets.map\<close> callback after the provider call:
  \<^verbatim>\<open>const zodiacSign = Math.floor(longitude / 30);
  const degreesInSign = longitude % 30;
  const nakshatra = Math.floor(longitude * 27 / 360);\<close>
  \<open>nakshatra_index\<close> is the local \<open>nakshatra\<close> of the source.
\<close>

definition nakshatra_index :: "real \<Rightarrow> int" where
  "nakshatra_index lon = \<lfloor>fdiv (fmul lon 27) 360\<rfloor>"

definition position_of :: "string \<Rightarrow> real \<Rightarrow> PlanetaryPosition" where
  "position_of name lon =
     \<lparr>planet = name,
      longitude = lon,
      zodiacSign = js_index zodiacNames \<lfloor>fdiv lon 30\<rfloor>,
      degreesInSign = js_fmod lon 30,
      nakshatra = js_index nakshtraNames (nakshatra_index lon),
      nakshatra_num = nakshatra_index lon + 1\<rparr>"

definition clamp :: "int \<Rightarrow> int \<Rightarrow> int \<Rightarrow> int" where
  "clamp lo hi x = min hi (max lo x)"

section \<open>Rendering numbers into strings\<close>

definition digit_chars :: string where
  "digit_chars = ''0123456789''"

fun string_of_nat :: "nat \<Rightarrow> string" where
  "string_of_nat n =
     (if n < 10 then [digit_chars ! n]
      else string_of_nat (n div 10) @ [digit_chars ! (n mod 10)])"

declare string_of_nat.simps [simp del]

text \<open>\<open>n.toString()\<close> of an integer, \<open>s.padStart(n, c)\<close>, and an optional string inside a
  template literal (\<open>undefined\<close> prints as the word).\<close>

definition toString :: "int \<Rightarrow> string" where
  "toString n = (if n < 0 then CHR ''-'' # string_of_nat (nat (- n)) else string_of_nat (nat n))"

definition padStart :: "nat \<Rightarrow> char \<Rightarrow> string \<Rightarrow> string" where
  "padStart n c s = replicate (n - length s) c @ s"

definition js_str :: "string option \<Rightarrow> string" where
  "js_str v = (case v of None \<Rightarrow> ''undefined'' | Some s \<Rightarrow> s)"

section \<open>The ephemeris provider (the sweph library)\<close>

text \<open>
  The native library is not code of this repository: its calls are parameters of the model.
  A call returns \<open>None\<close> when it throws. The calendar flag \<open>SE_GREG_CAL\<close> and the
  ephemeris flag \<open>SE_FLG_SWIEPH\<close> are the same at every call site and are left out;
  \<open>calc_ut\<close> gives \<open>result.data[0]\<close>, the longitude. \<open>rise_trans\<close> is the library's
  rise and set query (Julian day, \<open>SE_CALC_RISE\<close> or \<open>SE_CALC_SET\<close>, latitude,
  longitude).
\<close>

record revjul_result =
  rj_year :: int
  rj_month :: int
  rj_day :: int
  rj_hour :: real

record sweph =
  set_topo :: "real \<Rightarrow> real \<Rightarrow> real \<Rightarrow> unit option"
  julday :: "int \<Rightarrow> int \<Rightarrow> int \<Rightarrow> real \<Rightarrow> real option"
  revjul :: "real \<Rightarrow> revjul_result option"
  calc_ut :: "real \<Rightarrow> int \<Rightarrow> real option"
  rise_trans :: "real \<Rightarrow> int \<Rightarrow> real \<Rightarrow> real \<Rightarrow> real option"

definition SE_CALC_RISE :: int where "SE_CALC_RISE = 1"
definition SE_CALC_SET :: int where "SE_CALC_SET = 2"

definition planets :: "(int \<times> string) list" where
  "planets = [(0, ''Sun''), (1, ''Moon''), (2, ''Mercury''), (3, ''Venus''), (4, ''Mars''),
              (5, ''Jupiter''), (6, ''Saturn''), (10, ''Rahu'')]"

text \<open>
  \<open>calculatePlanetaryPositions\<close> of sweph-poc: any throw inside is caught and the empty
  list returned.
\<close>

definition calculatePlanetaryPositions ::
    "sweph \<Rightarrow> int \<Rightarrow> int \<Rightarrow> int \<Rightarrow> real \<Rightarrow> real \<Rightarrow> real \<Rightarrow> PlanetaryPosition list" where
  "calculatePlanetaryPositions sw year month day hour minute second =
     (case do {
        julianDay \<leftarrow> julday sw year month day
                      (fadd (fadd hour (fdiv minute 60)) (fdiv second 3600));
        those (map (\<lambda>(ident, name). map_option (position_of name) (calc_ut sw julianDay ident))
                 planets)
      } of
        None \<Rightarrow> []
      | Some positions \<Rightarrow> positions)"

text \<open>
  The copy in the calculator script returns \<open>{success: true, positions}\<close> or, on a throw,
  \<open>{success: false, message}\<close>, which has no \<open>positions\<close>: \<open>None\<close> here.
\<close>

definition calculatePlanetaryPositions_script ::
    "sweph \<Rightarrow> int \<Rightarrow> int \<Rightarrow> int \<Rightarrow> real \<Rightarrow> real \<Rightarrow> real \<Rightarrow> PlanetaryPosition list option" where
  "calculatePlanetaryPositions_script sw year month day hour minute second =
     do {
       julianDay \<leftarrow> julday sw year month day
                      (fadd (fadd hour (fdiv minute 60)) (fdiv second 3600));
       those (map (\<lambda>(ident, name). map_option (position_of name) (calc_ut sw julianDay ident))
                planets)
     }"

definition yogaNames_script :: "string list" where
  "yogaNames_script =
    [''Vishkumbha'', ''Priti'', ''Ayushman'', ''Saubhagya'', ''Shobhana'',
     ''Atiganda'', ''Sukarma'', ''Dhriti'', ''Shula'', ''Ganda'',
     ''Vriddhi'', ''Dhruva'', ''Vyaghata'', ''Harshana'', ''Vajra'',
     ''Siddhi'', ''Vyatipata'', ''Variyana'', ''Parigha'', ''Shiva'',
     ''Siddha'', ''Sadhya'', ''Shubha'', ''Shukla'', ''Brahma'',
     ''Indra'', ''Vaidhriti'']"

definition calculateYoga_script :: "real \<Rightarrow> real \<Rightarrow> Yoga" where
  "calculateYoga_script sunLongitude moonLongitude =
     (let sum0 = fadd sunLongitude moonLongitude;
          sum = (if sum0 \<ge> 360 then fsub sum0 360 else sum0);
          y = \<lfloor>fdiv (fmul sum 27) 360\<rfloor> + 1
      in \<lparr>yoga = y, yogaName = js_index yogaNames_script (y - 1)\<rparr>)"

section \<open>Daylight partitioner (calculateMuhurta)\<close>

text \<open>
  Field names of the result records carry a prefix (\<open>mu_\<close>, \<open>r_\<close>) where the source's name
  is already the name of a field above. \<open>r_dayLength\<close> is \<open>dayLength.toFixed(2)\<close> in the
  source; the model keeps the number. \<open>mu_quality\<close> and \<open>mu_nakshatra\<close> can be
  \<open>undefined\<close> in the source (a table read), hence optional.
\<close>

record Muhurta =
  mu_number :: int
  mu_name :: string
  mu_startTime :: string
  mu_endTime :: string
  mu_quality :: "string option"
  mu_tithi :: string
  mu_yoga :: string
  mu_nakshatra :: "string option"

record MuhurtaCalculationResult =
  r_success :: bool
  r_date :: "string option"
  r_sunrise :: "revjul_result option"
  r_sunset :: "revjul_result option"
  r_dayLength :: "real option"
  r_muhurtas :: "Muhurta list option"
  r_message :: "string option"

definition muhurtaNames :: "string list" where
  "muhurtaNames =
    [''Rudra'', ''Ahi'', ''Mitra'', ''Pitri'', ''Vasu'',
     ''Vara'', ''Vishvedeva'', ''Vidhi'', ''Satamukhi'', ''Puruhuta'',
     ''Vahini'', ''Naktanakara'', ''Varuna'', ''Aryaman'', ''Bhaga'']"

definition qualities :: "string list" where
  "qualities = [''Inauspicious'', ''Neutral'', ''Auspicious'']"

text \<open>
  \<^verbatim>\<open>const sunriseJD = julianDay + (6/24);  // 6 AM
  const sunsetJD = julianDay + (18/24);  // 6 PM\<close>
  \<open>julianDay\<close> is what \<open>julday\<close> returned for hour 0 of a calendar date, an integer
  plus one half; \<open>6/24\<close> and \<open>18/24\<close> are 1/4 and 3/4. The two sums are then binary64
  values themselves (lemma \<open>day_window_binary64\<close> below) and are written without
  rounding.
\<close>

definition sunriseJD :: "real \<Rightarrow> real" where
  "sunriseJD julianDay = julianDay + 6 / 24"

definition sunsetJD :: "real \<Rightarrow> real" where
  "sunsetJD julianDay = julianDay + 18 / 24"

text \<open>
  \<^verbatim>\<open>const dayLength = (sunsetJD - sunriseJD) * 24;
  const muhurtaDuration = dayLength / 15;
  for (let i = 0; i < 15; i++) {
    const startTime = sunriseJD + (i * muhurtaDuration) / 24;
    const endTime = sunriseJD + ((i + 1) * muhurtaDuration) / 24;\<close>
  The loop counter \<open>i\<close> and \<open>i + 1\<close> are small integers, exact in binary64.
\<close>

definition dayLength :: "real \<Rightarrow> real \<Rightarrow> real" where
  "dayLength sunrise sunset = fmul (fsub sunset sunrise) 24"

definition muhurtaDuration :: "real \<Rightarrow> real \<Rightarrow> real" where
  "muhurtaDuration sunrise sunset = fdiv (dayLength sunrise sunset) 15"

definition startTime :: "real \<Rightarrow> real \<Rightarrow> nat \<Rightarrow> real" where
  "startTime sunrise sunset i =
     fadd sunrise (fdiv (fmul (real i) (muhurtaDuration sunrise sunset)) 24)"

definition endTime :: "real \<Rightarrow> real \<Rightarrow> nat \<Rightarrow> real" where
  "endTime sunrise sunset i =
     fadd sunrise (fdiv (fmul (real i + 1) (muhurtaDuration sunrise sunset)) 24)"

text \<open>
  \<^verbatim>\<open>const formatTime = (date: any) => {
    const hour = Math.floor(date.hour);
    const minute = Math.floor((date.hour - hour) * 60);
    return `${hour.toString().padStart(2, '0')}:${minute.toString().padStart(2, '0')}`;\<close>
\<close>

definition formatTime :: "revjul_result \<Rightarrow> string" where
  "formatTime date =
     (let hour = \<lfloor>rj_hour date\<rfloor>;
          minute = \<lfloor>fmul (fsub (rj_hour date) (of_int hour)) 60\<rfloor>
      in padStart 2 CHR ''0'' (toString hour) @ '':'' @ padStart 2 CHR ''0'' (toString minute))"

text \<open>
  One iteration of the loop of sweph-poc's \<open>calculateMuhurta\<close>. \<open>random\<close> is the
  sequence of values that \<open>Math.random()\<close> returns; iteration \<open>i\<close> makes draw \<open>i\<close>.
\<close>

definition muhurta_entry :: "sweph \<Rightarrow> (nat \<Rightarrow> real) \<Rightarrow> real \<Rightarrow> real \<Rightarrow> nat \<Rightarrow> Muhurta option" where
  "muhurta_entry sw random sunrise sunset i =
     do {
       startDate \<leftarrow> revjul sw (startTime sunrise sunset i);
       endDate \<leftarrow> revjul sw (endTime sunrise sunset i);
       let midTime = fdiv (fadd (startTime sunrise sunset i) (endTime sunrise sunset i)) 2;
       midDate \<leftarrow> revjul sw midTime;
       let positions = calculatePlanetaryPositions sw
             (rj_year midDate) (rj_month midDate) (rj_day midDate) (rj_hour midDate)
             (of_int \<lfloor>fmul (fsub (rj_hour midDate) (of_int \<lfloor>rj_hour midDate\<rfloor>)) 60\<rfloor>) 0;
       let sun = find (\<lambda>p. planet p = ''Sun'') positions;
       let moon = find (\<lambda>p. planet p = ''Moon'') positions;
       let ty = (case (sun, moon) of
                   (Some s, Some m) \<Rightarrow>
                     Some (calculateTithi (longitude s) (longitude m),
                           calculateYoga (longitude s) (longitude m))
                 | _ \<Rightarrow> None);
       let qualityIndex = \<lfloor>fmul (random i) 3\<rfloor>;
       Some \<lparr>mu_number = int i + 1,
             mu_name = muhurtaNames ! i,
             mu_startTime = formatTime startDate,
             mu_endTime = formatTime endDate,
             mu_quality = js_index qualities qualityIndex,
             mu_tithi = (case ty of
                           Some (t, y) \<Rightarrow> js_str (tithiName t) @ '' ('' @ paksha t @ '')''
                         | None \<Rightarrow> ''Unknown''),
             mu_yoga = (case ty of Some (t, y) \<Rightarrow> js_str (yogaName y) | None \<Rightarrow> ''Unknown''),
             mu_nakshatra = (case moon of Some m \<Rightarrow> nakshatra m | None \<Rightarrow> Some ''Unknown'')\<rparr>
     }"

definition date_string :: "int \<Rightarrow> int \<Rightarrow> int \<Rightarrow> string" where
  "date_string year month day =
     toString year @ ''-'' @ padStart 2 CHR ''0'' (toString month) @ ''-'' @
     padStart 2 CHR ''0'' (toString day)"

definition failure :: "string \<Rightarrow> MuhurtaCalculationResult" where
  "failure msg =
     \<lparr>r_success = False, r_date = None, r_sunrise = None, r_sunset = None,
      r_dayLength = None, r_muhurtas = None, r_message = Some msg\<rparr>"

text \<open>
  \<open>calculateMuhurta\<close> of sweph-poc. The sunrise and sunset are the fixed 6 AM and 6 PM of
  the source. A throw inside the \<open>try\<close> block gives \<open>{success: false, message}\<close>;
  the text of the caught error is not modelled. The parameters \<open>lat\<close> and \<open>lon\<close> are
  the source's \<open>latitude\<close> and \<open>longitude\<close>.
\<close>

definition calculateMuhurta ::
    "sweph \<Rightarrow> (nat \<Rightarrow> real) \<Rightarrow> int \<Rightarrow> int \<Rightarrow> int \<Rightarrow> real \<Rightarrow> real \<Rightarrow> MuhurtaCalculationResult" where
  "calculateMuhurta sw random year month day lat lon =
     (case do {
        _ \<leftarrow> set_topo sw lat lon 0;
        julianDay \<leftarrow> julday sw year month day 0;
        muhurtas \<leftarrow> those (map (muhurta_entry sw random (sunriseJD julianDay) (sunsetJD julianDay))
                               [0..<15]);
        sunrise \<leftarrow> revjul sw (sunriseJD julianDay);
        sunset \<leftarrow> revjul sw (sunsetJD julianDay);
        Some \<lparr>r_success = True,
              r_date = Some (date_string year month day),
              r_sunrise = Some sunrise,
              r_sunset = Some sunset,
              r_dayLength = Some (dayLength (sunriseJD julianDay) (sunsetJD julianDay)),
              r_muhurtas = Some muhurtas,
              r_message = None\<rparr>
      } of
        None \<Rightarrow> failure ''Error''
      | Some result \<Rightarrow> result)"

text \<open>
  The copy in the calculator script: no \<open>set_topo\<close> call, its own tithi and yoga
  functions, and a failed position query makes the whole calculation fail
  (\<open>.positions\<close> of the failure object is \<open>undefined\<close>, and \<open>.find\<close> on it throws).
\<close>

definition muhurta_entry_script ::
    "sweph \<Rightarrow> (nat \<Rightarrow> real) \<Rightarrow> real \<Rightarrow> real \<Rightarrow> nat \<Rightarrow> Muhurta option" where
  "muhurta_entry_script sw random sunrise sunset i =
     do {
       startDate \<leftarrow> revjul sw (startTime sunrise sunset i);
       endDate \<leftarrow> revjul sw (endTime sunrise sunset i);
       let midTime = fdiv (fadd (startTime sunrise sunset i) (endTime sunrise sunset i)) 2;
       midDate \<leftarrow> revjul sw midTime;
       positions \<leftarrow> calculatePlanetaryPositions_script sw
             (rj_year midDate) (rj_month midDate) (rj_day midDate) (rj_hour midDate)
             (of_int \<lfloor>fmul (fsub (rj_hour midDate) (of_int \<lfloor>rj_hour midDate\<rfloor>)) 60\<rfloor>) 0;
       let sun = find (\<lambda>p. planet p = ''Sun'') positions;
       let moon = find (\<lambda>p. planet p = ''Moon'') positions;
       let ty = (case (sun, moon) of
                   (Some s, Some m) \<Rightarrow>
                     Some (calculateTithi_script (longitude s) (longitude m),
                           calculateYoga_script (longitude s) (longitude m))
                 | _ \<Rightarrow> None);
       let qualityIndex = \<lfloor>fmul (random i) 3\<rfloor>;
       Some \<lparr>mu_number = int i + 1,
             mu_name = muhurtaNames ! i,
             mu_startTime = formatTime startDate,
             mu_endTime = formatTime endDate,
             mu_quality = js_index qualities qualityIndex,
             mu_tithi = (case ty of
                           Some (t, y) \<Rightarrow> js_str (tithiName t) @ '' ('' @ paksha t @ '')''
                         | None \<Rightarrow> ''Unknown''),
             mu_yoga = (case ty of Some (t, y) \<Rightarrow> js_str (yogaName y) | None \<Rightarrow> ''Unknown''),
             mu_nakshatra = (case moon of Some m \<Rightarrow> nakshatra m | None \<Rightarrow> Some ''Unknown'')\<rparr>
     }"

definition calculateMuhurta_script ::
    "sweph \<Rightarrow> (nat \<Rightarrow> real) \<Rightarrow> int \<Rightarrow> int \<Rightarrow> int \<Rightarrow> real \<Rightarrow> real \<Rightarrow> MuhurtaCalculationResult" where
  "calculateMuhurta_script sw random year month day lat lon =
     (case do {
        julianDay \<leftarrow> julday sw year month day 0;
        muhurtas \<leftarrow> those (map (muhurta_entry_script sw random
                                  (sunriseJD julianDay) (sunsetJD julianDay)) [0..<15]);
        sunrise \<leftarrow> revjul sw (sunriseJD julianDay);
        sunset \<leftarrow> revjul sw (sunsetJD julianDay);
        Some \<lparr>r_success = True,
              r_date = Some (date_string year month day),
              r_sunrise = Some sunrise,
              r_sunset = Some sunset,
              r_dayLength = Some (dayLength (sunriseJD julianDay) (sunsetJD julianDay)),
              r_muhurtas = Some muhurtas,
              r_message = None\<rparr>
      } of
        None \<Rightarrow> failure ''Error calculating muhurta''
      | Some result \<Rightarrow> result)"

text \<open>
  The provider's own rise and set instants for a date and a location, through the same
  \<open>revjul\<close> conversion as the result uses; \<open>None\<close> when a call fails.
\<close>

definition provider_rise_set ::
    "sweph \<Rightarrow> real \<Rightarrow> real \<Rightarrow> real \<Rightarrow> (revjul_result \<times> revjul_result) option" where
  "provider_rise_set sw julianDay lat lon =
     do {
       rise \<leftarrow> rise_trans sw julianDay SE_CALC_RISE lat lon;
       sett \<leftarrow> rise_trans sw julianDay SE_CALC_SET lat lon;
       sunrise \<leftarrow> revjul sw rise;
       sunset \<leftarrow> revjul sw sett;
       Some (sunrise, sunset)
     }"

text \<open>
  The requirement of the specification on a result (C6): the request failed, or the result
  carries a marker (the result type has one free-text field, \<open>message\<close>), or its sunrise
  and sunset are the provider's for that date and location.
\<close>

definition honest_day_window ::
    "sweph \<Rightarrow> int \<Rightarrow> int \<Rightarrow> int \<Rightarrow> real \<Rightarrow> real \<Rightarrow> MuhurtaCalculationResult \<Rightarrow> bool" where
  "honest_day_window sw year month day lat lon res =
     (if r_success res \<and> r_message res = None then
        (case julday sw year month day 0 of
           None \<Rightarrow> False
         | Some julianDay \<Rightarrow>
             (case provider_rise_set sw julianDay lat lon of
                None \<Rightarrow> False
              | Some (sunrise, sunset) \<Rightarrow>
                  r_sunrise res = Some sunrise \<and> r_sunset res = Some sunset))
      else True)"

text \<open>
  A test double of the provider: days are counted within the month from noon as Julian
  days are, the Sun rises at 05:00 and sets at 19:00, every body is at longitude 0.
\<close>

definition sweph_double :: sweph where
  "sweph_double =
     \<lparr>set_topo = (\<lambda>lat lon alt. Some ()),
      julday = (\<lambda>year month day hour. Some (real_of_int day - 1 / 2 + hour / 24)),
      revjul = (\<lambda>jd. Some \<lparr>rj_year = 2025, rj_month = 6, rj_day = \<lfloor>jd + 1 / 2\<rfloor>,
                           rj_hour = (jd + 1 / 2 - of_int \<lfloor>jd + 1 / 2\<rfloor>) * 24\<rparr>),
      calc_ut = (\<lambda>jd ident. Some 0),
      rise_trans = (\<lambda>jd rsmi lat lon. Some (jd + (if rsmi = SE_CALC_RISE then 5 / 24 else 19 / 24)))\<rparr>"

section \<open>The process boundary (SwissEphemerisService.runCalculation)\<close>

text \<open>
  \<open>runCalculation\<close> spawns the calculator and registers handlers; what the child then does
  is a sequence of events delivered to the handlers. A promise settles once: later calls of
  \<open>resolve\<close> or \<open>reject\<close> change nothing. The exit code of a \<open>close\<close> event is
  \<open>null\<close> when a signal ended the child. \<open>JSON.parse\<close> is a parameter: \<open>Inl\<close> carries
  the text of its SyntaxError.
\<close>

datatype child_event =
    Stdout_data string
  | Stderr_data string
  | Close "int option"
  | Error string

datatype 'j promise = Pending | Resolved 'j | Rejected string

record 'j run_state =
  stdoutData :: string
  stderrData :: string
  outcome :: "'j promise"

definition settle :: "'j promise \<Rightarrow> 'j run_state \<Rightarrow> 'j run_state" where
  "settle p st = (if outcome st = Pending then st\<lparr>outcome := p\<rparr> else st)"

definition on_event :: "(string \<Rightarrow> string + 'j) \<Rightarrow> 'j run_state \<Rightarrow> child_event \<Rightarrow> 'j run_state" where
  "on_event parse st ev =
     (case ev of
        Stdout_data d \<Rightarrow> st\<lparr>stdoutData := stdoutData st @ d\<rparr>
      | Stderr_data d \<Rightarrow> st\<lparr>stderrData := stderrData st @ d\<rparr>
      | Close code \<Rightarrow>
          (if code = Some 0 then
             (case parse (stdoutData st) of
                Inr result \<Rightarrow> settle (Resolved result) st
              | Inl err \<Rightarrow> settle (Rejected (''Failed to parse calculator output: '' @ err)) st)
           else
             settle (Rejected (''Calculator process exited with code '' @
                       (case code of None \<Rightarrow> ''null'' | Some c \<Rightarrow> toString c) @ '': '' @
                       stderrData st)) st)
      | Error err \<Rightarrow> settle (Rejected (''Failed to start calculator process: '' @ err)) st)"

text \<open>\<open>spawn\<close> either throws at once or returns a child that emits events.\<close>

datatype spawn_result = Spawn_throws string | Spawned "child_event list"

definition runCalculation :: "(string \<Rightarrow> string + 'j) \<Rightarrow> spawn_result \<Rightarrow> 'j promise" where
  "runCalculation parse sp =
     (case sp of
        Spawn_throws err \<Rightarrow> Rejected (''Error running calculation: '' @ err)
      | Spawned events \<Rightarrow>
          outcome (foldl (on_event parse)
                     \<lparr>stdoutData = [], stderrData = [], outcome = Pending\<rparr> events))"

text \<open>The stream events of a run, and the standard output they carry.\<close>

fun is_data :: "child_event \<Rightarrow> bool" where
  "is_data (Stdout_data d) = True"
| "is_data (Stderr_data d) = True"
| "is_data (Close code) = False"
| "is_data (Error err) = False"

fun stdout_of :: "child_event list \<Rightarrow> string" where
  "stdout_of [] = []"
| "stdout_of (Stdout_data d # evs) = d @ stdout_of evs"
| "stdout_of (ev # evs) = stdout_of evs"

fun stderr_of :: "child_event list \<Rightarrow> string" where
  "stderr_of [] = []"
| "stderr_of (Stderr_data d # evs) = d @ stderr_of evs"
| "stderr_of (ev # evs) = stderr_of evs"

text \<open>
  What the \<open>close\<close> handler settles the promise to, from the stream events before it.
\<close>

definition close_outcome :: "(string \<Rightarrow> string + 'j) \<Rightarrow> child_event list \<Rightarrow> int option \<Rightarrow> 'j promise" where
  "close_outcome parse ds code =
     (if code = Some 0 then
        (case parse (stdout_of ds) of
           Inr result \<Rightarrow> Resolved result
         | Inl err \<Rightarrow> Rejected (''Failed to parse calculator output: '' @ err))
      else Rejected (''Calculator process exited with code '' @
             (case code of None \<Rightarrow> ''null'' | Some c \<Rightarrow> toString c) @ '': '' @ stderr_of ds))"

text \<open>A small parser for concrete runs: it accepts the one document \<open>{}\<close>.\<close>

definition parse_double :: "string \<Rightarrow> string + unit" where
  "parse_double s = (if s = ''{}'' then Inr () else Inl ''SyntaxError'')"

section \<open>Time values and the Date object (the JavaScript runtime)\<close>

text \<open>
  A valid \<open>Date\<close> is its time value: the milliseconds since 1970-01-01T00:00:00Z, an
  \<open>int\<close>. The functions below are those of the ECMAScript specification (\<open>Day\<close>,
  \<open>TimeWithinDay\<close>, \<open>WeekDay\<close>, \<open>MonthFromTime\<close>, \<open>DateFromTime\<close>, \<open>LocalTime\<close>,
  \<open>UTC\<close>) in the proleptic Gregorian calendar; the range limit of time values is left
  out.

  Two things are the host's and not the code's, and are parameters of the model
  (\<open>runtime\<close>). \<open>LocalTZA t isUTC\<close> is the offset of the local time zone in
  milliseconds, at the UTC time \<open>t\<close> when \<open>isUTC\<close> holds and at the local time \<open>t\<close>
  otherwise: it changes with \<open>t\<close> where the zone has daylight saving. \<open>parse_fallback\<close>
  is what \<open>Date.parse\<close> makes of a string that is not in the ISO date form, which the
  language leaves to the implementation (\<open>None\<close> is the Invalid Date).
\<close>

record runtime =
  LocalTZA :: "int \<Rightarrow> bool \<Rightarrow> int"
  parse_fallback :: "string \<Rightarrow> int option"

definition msPerDay :: int where
  "msPerDay = 86400000"

definition Day :: "int \<Rightarrow> int" where
  "Day t = t div msPerDay"

definition TimeWithinDay :: "int \<Rightarrow> int" where
  "TimeWithinDay t = t mod msPerDay"

definition WeekDay :: "int \<Rightarrow> int" where
  "WeekDay t = (Day t + 4) mod 7"

text \<open>Day number (days since 1970-01-01) to year, month (1 to 12), day of the month.\<close>

definition civil_from_days :: "int \<Rightarrow> int \<times> int \<times> int" where
  "civil_from_days z =
     (let z1 = z + 719468;
          era = z1 div 146097;
          doe = z1 - era * 146097;
          yoe = (doe - doe div 1460 + doe div 36524 - doe div 146096) div 365;
          doy = doe - (365 * yoe + yoe div 4 - yoe div 100);
          mp = (5 * doy + 2) div 153;
          d = doy - (153 * mp + 2) div 5 + 1;
          m = (if mp < 10 then mp + 3 else mp - 9);
          y = yoe + era * 400
      in (if m \<le> 2 then y + 1 else y, m, d))"

definition days_from_civil :: "int \<Rightarrow> int \<Rightarrow> int \<Rightarrow> int" where
  "days_from_civil y m d =
     (let y1 = (if m \<le> 2 then y - 1 else y);
          era = y1 div 400;
          yoe = y1 - era * 400;
          doy = (153 * (if m > 2 then m - 3 else m + 9) + 2) div 5 + d - 1;
          doe = yoe * 365 + yoe div 4 - yoe div 100 + doy
      in era * 146097 + doe - 719468)"

definition YearFromTime :: "int \<Rightarrow> int" where
  "YearFromTime t = fst (civil_from_days (Day t))"

definition MonthFromTime :: "int \<Rightarrow> int" where
  "MonthFromTime t = fst (snd (civil_from_days (Day t))) - 1"

definition DateFromTime :: "int \<Rightarrow> int" where
  "DateFromTime t = snd (snd (civil_from_days (Day t)))"

definition LocalTime :: "runtime \<Rightarrow> int \<Rightarrow> int" where
  "LocalTime rt t = t + LocalTZA rt t True"

definition UTC :: "runtime \<Rightarrow> int \<Rightarrow> int" where
  "UTC rt t = t - LocalTZA rt t False"

definition MakeDate :: "int \<Rightarrow> int \<Rightarrow> int" where
  "MakeDate day time = day * msPerDay + time"

definition getDay :: "runtime \<Rightarrow> int \<Rightarrow> int" where
  "getDay rt t = WeekDay (LocalTime rt t)"

definition getMonth :: "runtime \<Rightarrow> int \<Rightarrow> int" where
  "getMonth rt t = MonthFromTime (LocalTime rt t)"

definition getDate :: "runtime \<Rightarrow> int \<Rightarrow> int" where
  "getDate rt t = DateFromTime (LocalTime rt t)"

text \<open>
  \<open>date.setDate(dt)\<close>: the local date is moved to day \<open>dt\<close> of its month, counting on
  past the end of the month; the local time of day stays. The day number of the first of
  the month of a local time \<open>lt\<close> is \<open>Day lt - (DateFromTime lt - 1)\<close>
  (ECMAScript's \<open>MakeDay(YearFromTime lt, MonthFromTime lt, dt)\<close> is that plus \<open>dt - 1\<close>).
\<close>

definition setDate :: "runtime \<Rightarrow> int \<Rightarrow> int \<Rightarrow> int" where
  "setDate rt t dt =
     (let lt = LocalTime rt t;
          firstOfMonth = Day lt - (DateFromTime lt - 1)
      in UTC rt (MakeDate (firstOfMonth + dt - 1) (TimeWithinDay lt)))"

text \<open>
  \<open>date.toISOString().split('T')[0]\<close>: the UTC calendar date, the year with four digits
  (six and a sign outside 0 to 9999).
\<close>

definition iso_year :: "int \<Rightarrow> string" where
  "iso_year y =
     (if 0 \<le> y \<and> y \<le> 9999 then padStart 4 CHR ''0'' (toString y)
      else (if y < 0 then ''-'' else ''+'') @ padStart 6 CHR ''0'' (toString \<bar>y\<bar>))"

definition iso_date :: "int \<Rightarrow> string" where
  "iso_date t =
     (case civil_from_days (Day t) of
        (y, m, d) \<Rightarrow>
          iso_year y @ ''-'' @ padStart 2 CHR ''0'' (toString m) @ ''-'' @
          padStart 2 CHR ''0'' (toString d))"

text \<open>
  \<open>new Date(s)\<close>. A string in the date-only form \<open>YYYY-MM-DD\<close> that names a calendar
  date (the value of an \<open>input type="date"\<close>) is midnight UTC of that day. Every other
  string, also one in that form that names no calendar date, is left to the
  implementation: \<open>parse_fallback\<close>.
\<close>

definition digit_value :: "char \<Rightarrow> int option" where
  "digit_value = map_of (zip ''0123456789'' [0, 1, 2, 3, 4, 5, 6, 7, 8, 9])"

fun digits_value :: "int \<Rightarrow> string \<Rightarrow> int option" where
  "digits_value acc [] = Some acc"
| "digits_value acc (c # cs) =
     (case digit_value c of None \<Rightarrow> None | Some v \<Rightarrow> digits_value (acc * 10 + v) cs)"

definition days_in_month :: "int \<Rightarrow> int \<Rightarrow> int" where
  "days_in_month y m =
     (if m = 12 then days_from_civil (y + 1) 1 1 else days_from_civil y (m + 1) 1) -
     days_from_civil y m 1"

definition iso_fields :: "string \<Rightarrow> (int \<times> int \<times> int) option" where
  "iso_fields s =
     (case s of
        [y1, y2, y3, y4, h1, m1, m2, h2, d1, d2] \<Rightarrow>
          (if h1 = CHR ''-'' \<and> h2 = CHR ''-'' then
             (case (digits_value 0 [y1, y2, y3, y4], digits_value 0 [m1, m2],
                    digits_value 0 [d1, d2]) of
                (Some y, Some m, Some d) \<Rightarrow>
                  (if 1 \<le> m \<and> m \<le> 12 \<and> 1 \<le> d \<and> d \<le> days_in_month y m
                   then Some (y, m, d) else None)
              | _ \<Rightarrow> None)
           else None)
      | _ \<Rightarrow> None)"

definition Date_parse :: "runtime \<Rightarrow> string \<Rightarrow> int option" where
  "Date_parse rt s =
     (case iso_fields s of
        None \<Rightarrow> parse_fallback rt s
      | Some (y, m, d) \<Rightarrow> Some (days_from_civil y m d * msPerDay))"

text \<open>
  Hosts for concrete runs. \<open>fixed_zone\<close>: a zone with one offset all year.
  \<open>new_york_2024\<close>: UTC-05:00, and UTC-04:00 from 2024-03-10T07:00Z to 2024-11-03T06:00Z;
  a local time that the spring change skips or the autumn change repeats is read with the
  offset before the change. \<open>iso_only\<close>: an implementation that reads no other string
  than the ISO date form.
\<close>

definition fixed_zone :: "int \<Rightarrow> (string \<Rightarrow> int option) \<Rightarrow> runtime" where
  "fixed_zone offset fallback = \<lparr>LocalTZA = (\<lambda>t isUTC. offset), parse_fallback = fallback\<rparr>"


definition iso_only :: "string \<Rightarrow> int option" where
  "iso_only s = None"

text \<open>JavaScript's \<open>%\<close> on integers: the sign of the result is the sign of the dividend.\<close>

definition js_rem :: "int \<Rightarrow> int \<Rightarrow> int" where
  "js_rem a n = sgn a * (\<bar>a\<bar> mod \<bar>n\<bar>)"

definition toLowerCase :: "string \<Rightarrow> string" where
  "toLowerCase s =
     map (\<lambda>c. case map_of (zip ''ABCDEFGHIJKLMNOPQRSTUVWXYZ'' ''abcdefghijklmnopqrstuvwxyz'') c of
                None \<Rightarrow> c
              | Some l \<Rightarrow> l) s"

section \<open>Scoring function and horizon ranker (App.tsx)\<close>

text \<open>
  Field names carry a prefix (\<open>birth_\<close>, \<open>ev_\<close>, \<open>m_\<close>). The \<open>icon\<close> of an event type,
  a glyph outside ASCII, is left out. \<open>m_time\<close> and \<open>m_nakshatra\<close> are table reads and so
  can be \<open>undefined\<close>.
\<close>

record BirthData =
  birth_date :: string
  birth_time :: string
  birth_location :: string

record Muhurat =
  m_id :: string
  m_date :: string
  m_time :: "string option"
  m_type :: string
  m_score :: int
  m_nakshatra :: "string option"
  m_tithi :: string
  m_description :: string
  m_details :: string

record EventType =
  ev_name :: string
  ev_color :: string
  ev_auspicious :: "int list"

definition NAKSHATRAS :: "string list" where
  "NAKSHATRAS =
    [''Ashwini'', ''Bharani'', ''Krittika'', ''Rohini'', ''Mrigashira'', ''Ardra'',
     ''Punarvasu'', ''Pushya'', ''Ashlesha'', ''Magha'', ''Purva Phalguni'', ''Uttara Phalguni'',
     ''Hasta'', ''Chitra'', ''Swati'', ''Vishakha'', ''Anuradha'', ''Jyeshtha'',
     ''Mula'', ''Purva Ashadha'', ''Uttara Ashadha'', ''Shravana'', ''Dhanishta'',
     ''Shatabhisha'', ''Purva Bhadrapada'', ''Uttara Bhadrapada'', ''Revati'']"

definition EVENT_TYPES :: "string \<Rightarrow> EventType option" where
  "EVENT_TYPES = map_of
    [(''wedding'', \<lparr>ev_name = ''Wedding'', ev_color = ''bg-rose-100 text-rose-800'',
                    ev_auspicious = [1, 3, 5, 7, 10, 11, 13]\<rparr>),
     (''travel'', \<lparr>ev_name = ''Travel'', ev_color = ''bg-blue-100 text-blue-800'',
                   ev_auspicious = [2, 4, 6, 8, 10, 12, 14]\<rparr>),
     (''business'', \<lparr>ev_name = ''Business'', ev_color = ''bg-green-100 text-green-800'',
                     ev_auspicious = [1, 2, 5, 9, 11, 13, 15]\<rparr>),
     (''property'', \<lparr>ev_name = ''Property'', ev_color = ''bg-amber-100 text-amber-800'',
                     ev_auspicious = [2, 5, 7, 10, 12, 14]\<rparr>),
     (''education'', \<lparr>ev_name = ''Education'', ev_color = ''bg-purple-100 text-purple-800'',
                      ev_auspicious = [1, 4, 5, 9, 10, 11]\<rparr>)]"

text \<open>\<open>new Date('2024-01-01').getTime()\<close>.\<close>

definition baseDate :: int where
  "baseDate = 1704067200000"

text \<open>\<open>Math.floor((date.getTime() - baseDate.getTime()) / (1000 * 60 * 60 * 24))\<close>\<close>

definition diffDays :: "int \<Rightarrow> int" where
  "diffDays date = (date - baseDate) div (1000 * 60 * 60 * 24)"

definition calculateLunarDay :: "int \<Rightarrow> int" where
  "calculateLunarDay date = js_rem (diffDays date) 30 + 1"

definition getNakshatra :: "int \<Rightarrow> string option" where
  "getNakshatra date = js_index NAKSHATRAS (js_rem (diffDays date) 27)"

definition auspiciousDays :: "int \<Rightarrow> int option" where
  "auspiciousDays = map_of [(1, 15), (3, 20), (4, 10), (5, 15)]"

definition auspiciousNakshatras :: "string list" where
  "auspiciousNakshatras = [''Rohini'', ''Pushya'', ''Hasta'', ''Swati'', ''Uttara Phalguni'']"

text \<open>
  Reading \<open>.auspicious.includes\<close> of an event type that the catalog does not have throws a
  TypeError (also for the keys that a JavaScript object inherits, whose values have no
  \<open>auspicious\<close>).
\<close>

datatype js_error = TypeError

text \<open>
  \<^verbatim>\<open>let score = 50;
  if (EVENT_TYPES[eventType].auspicious.includes(tithi)) score += 25;
  score += auspiciousDays[dayOfWeek] || 0;
  if (auspiciousNakshatras.includes(nakshatra)) score += 15;
  const birthMonth = new Date(birthData.date).getMonth();
  const currentMonth = date.getMonth();
  if ((currentMonth - birthMonth) % 6 === 0) score += 10;
  return Math.min(100, Math.max(10, score));\<close>
  With an unparseable birth date \<open>birthMonth\<close> is NaN and the last comparison is false.
\<close>

definition calculateMuhuratScore ::
    "runtime \<Rightarrow> int \<Rightarrow> string \<Rightarrow> BirthData \<Rightarrow> js_error + int" where
  "calculateMuhuratScore rt date eventType birthData =
     (let t = calculateLunarDay date;
          n = getNakshatra date;
          dayOfWeek = getDay rt date;
          score0 = 50
      in case EVENT_TYPES eventType of
           None \<Rightarrow> Inl TypeError
         | Some et \<Rightarrow>
             (let score1 = (if t \<in> set (ev_auspicious et) then score0 + 25 else score0);
                  score2 = score1 + (case auspiciousDays dayOfWeek of None \<Rightarrow> 0 | Some b \<Rightarrow> b);
                  score3 = (if (case n of None \<Rightarrow> False | Some s \<Rightarrow> s \<in> set auspiciousNakshatras)
                            then score2 + 15 else score2);
                  birthMonth = map_option (getMonth rt) (Date_parse rt (birth_date birthData));
                  currentMonth = getMonth rt date;
                  score4 = (if (case birthMonth of
                                  None \<Rightarrow> False
                                | Some b \<Rightarrow> js_rem (currentMonth - b) 6 = 0)
                            then score3 + 10 else score3)
              in Inr (min 100 (max 10 score4))))"

definition timeSlots :: "string list" where
  "timeSlots = [''06:00'', ''07:30'', ''10:15'', ''11:45'']"

text \<open>
  The object pushed for day \<open>i\<close>; \<open>r\<close> is the value that \<open>Math.random()\<close> returned for it.
  \<open>Math.random() * timeSlots.length\<close> multiplies by 4, which is exact in binary64.
\<close>

definition muhurat :: "nat \<Rightarrow> int \<Rightarrow> string \<Rightarrow> int \<Rightarrow> real \<Rightarrow> Muhurat" where
  "muhurat i date eventType score r =
     (let t = calculateLunarDay date;
          n = getNakshatra date;
          selectedTime = js_index timeSlots \<lfloor>r * real (length timeSlots)\<rfloor>
      in \<lparr>m_id = ''muhurat_'' @ toString (int i),
          m_date = iso_date date,
          m_time = selectedTime,
          m_type = eventType,
          m_score = score,
          m_nakshatra = n,
          m_tithi = toString t,
          m_description =
            (if score > 85 then ''Exceptionally auspicious''
             else if score > 75 then ''Highly favorable'' else ''Auspicious''),
          m_details =
            js_str n @ '' nakshatra, Tithi '' @ toString t @
            ''. Planetary alignment favorable for '' @
            toLowerCase (case EVENT_TYPES eventType of None \<Rightarrow> [] | Some et \<Rightarrow> ev_name et) @
            ''.''\<rparr>)"

text \<open>
  The date of iteration \<open>i\<close>:
  \<^verbatim>\<open>const date = new Date(startDate); date.setDate(date.getDate() + i);\<close>
\<close>

definition candidate_date :: "runtime \<Rightarrow> int \<Rightarrow> nat \<Rightarrow> int" where
  "candidate_date rt startDate i = setDate rt startDate (getDate rt startDate + int i)"

text \<open>
  The loop body over the remaining day indices. \<open>random\<close> is the sequence of values that
  \<open>Math.random()\<close> returns and \<open>k\<close> the number of draws made so far; a throw of the
  scoring function ends the loop.
\<close>

fun scan_days ::
    "runtime \<Rightarrow> int \<Rightarrow> (nat \<Rightarrow> real) \<Rightarrow> BirthData \<Rightarrow> string \<Rightarrow> nat list \<Rightarrow> nat \<Rightarrow>
       js_error + Muhurat list" where
  "scan_days rt startDate random birthData eventType [] k = Inr []"
| "scan_days rt startDate random birthData eventType (i # rest) k =
     (case calculateMuhuratScore rt (candidate_date rt startDate i) eventType birthData of
        Inl e \<Rightarrow> Inl e
      | Inr score \<Rightarrow>
          (if score \<ge> 60 then
             (case scan_days rt startDate random birthData eventType rest (Suc k) of
                Inl e \<Rightarrow> Inl e
              | Inr muhurats \<Rightarrow>
                  Inr (muhurat i (candidate_date rt startDate i) eventType score (random k)
                       # muhurats))
           else scan_days rt startDate random birthData eventType rest k))"

text \<open>
  \<open>generateOptimizedMuhurats\<close>; \<open>startDate\<close> is the time value of \<open>new Date()\<close>.
  \<open>Array.prototype.sort\<close> is stable, as is \<open>sort_key\<close>; the comparator
  \<open>(a, b) => b.score - a.score\<close> orders by descending score.
\<close>

definition generateOptimizedMuhurats ::
    "runtime \<Rightarrow> int \<Rightarrow> (nat \<Rightarrow> real) \<Rightarrow> BirthData \<Rightarrow> string \<Rightarrow> js_error + Muhurat list" where
  "generateOptimizedMuhurats rt startDate random birthData eventType =
     (case scan_days rt startDate random birthData eventType [0..<90] 0 of
        Inl e \<Rightarrow> Inl e
      | Inr muhurats \<Rightarrow> Inr (take 20 (sort_key (\<lambda>m. - m_score m) muhurats)))"

section \<open>The scoring and ranking rules in the words of the specification\<close>

text \<open>
  The weekday table: Monday 15, Wednesday 20, Thursday 10, Friday 15, every other day 0
  (weekdays numbered from Sunday = 0, as \<open>Date.getDay\<close> does).
\<close>

definition weekday_bonus :: "int \<Rightarrow> int" where
  "weekday_bonus weekday =
     (if weekday = 1 then 15 else if weekday = 3 then 20 else if weekday = 4 then 10
      else if weekday = 5 then 15 else 0)"

text \<open>
  Base 50, plus 25 for a favorable tithi, plus the weekday bonus, plus 15 for a nakshatra
  of the auspicious set, plus 10 when the month difference is a multiple of 6; clamped to
  \<open>[10, 100]\<close>.
\<close>

definition spec_score :: "int set \<Rightarrow> int \<Rightarrow> int \<Rightarrow> string option \<Rightarrow> int \<Rightarrow> int \<Rightarrow> int" where
  "spec_score favorableTithi t weekday n month birthMonth =
     clamp 10 100
       (50 + (if t \<in> favorableTithi then 25 else 0) + weekday_bonus weekday +
        (if n \<in> Some ` set auspiciousNakshatras then 15 else 0) +
        (if (month - birthMonth) mod 6 = 0 then 10 else 0))"

text \<open>The score of day \<open>i\<close> of the horizon, for an event type of the catalog.\<close>

definition score_at :: "runtime \<Rightarrow> int \<Rightarrow> BirthData \<Rightarrow> string \<Rightarrow> nat \<Rightarrow> int" where
  "score_at rt startDate birthData eventType i =
     (case calculateMuhuratScore rt (candidate_date rt startDate i) eventType birthData of
        Inl e \<Rightarrow> 0
      | Inr score \<Rightarrow> score)"

text \<open>
  The calendar day of candidate \<open>i\<close>, as a day number: today's local date plus \<open>i\<close>
  days.
\<close>

definition requested_day :: "runtime \<Rightarrow> int \<Rightarrow> nat \<Rightarrow> int" where
  "requested_day rt startDate i = Day (LocalTime rt startDate) + int i"

text \<open>
  The ranking: of the 90 days from today, those that score at least 60, sorted descending by
  score with ties broken by ascending date, truncated to 20. Pairs are ordered
  lexicographically.
\<close>

definition spec_rank :: "runtime \<Rightarrow> int \<Rightarrow> BirthData \<Rightarrow> string \<Rightarrow> nat list" where
  "spec_rank rt startDate birthData eventType =
     take 20
       (sort_key (\<lambda>i. (- score_at rt startDate birthData eventType i, requested_day rt startDate i))
          (filter (\<lambda>i. 60 \<le> score_at rt startDate birthData eventType i) [0..<90]))"

text \<open>A candidate without its display time slot, and the candidate of day \<open>i\<close> so.\<close>

definition erase_time :: "Muhurat \<Rightarrow> Muhurat" where
  "erase_time m = m\<lparr>m_time := None\<rparr>"

definition day_record :: "runtime \<Rightarrow> int \<Rightarrow> BirthData \<Rightarrow> string \<Rightarrow> nat \<Rightarrow> Muhurat" where
  "day_record rt startDate birthData eventType i =
     erase_time (muhurat i (candidate_date rt startDate i) eventType
                   (score_at rt startDate birthData eventType i) 0)"

text \<open>
  The ranked days as the code holds them: each kept day paired with the number of the
  random draw made for it, stably sorted by descending score, cut to 20.
\<close>

definition ranked_draws :: "runtime \<Rightarrow> int \<Rightarrow> BirthData \<Rightarrow> string \<Rightarrow> (nat \<times> nat) list" where
  "ranked_draws rt startDate birthData eventType =
     take 20
       (sort_key (\<lambda>p. - score_at rt startDate birthData eventType (snd p))
          (enumerate 0 (filter (\<lambda>i. 60 \<le> score_at rt startDate birthData eventType i) [0..<90])))"

section \<open>Rounding to binary64\<close>

text \<open>
  \<open>expo\<close> is the binary exponent, so \<open>round64\<close> rounds to 53 significant bits. What
  the proofs below use: a number with a 53-bit numerator over a power of two is its own
  rounding (\<open>round64_dyadic\<close>), a rounding can be read off after scaling into
  \<open>[2^52, 2^53)\<close> (\<open>round64_eval\<close>), and the relative error of a rounding is at most
  \<open>2^-53\<close> (\<open>round64_error\<close>).
\<close>

lemma expo_bounds_ge1:
  assumes "1 \<le> \<bar>x\<bar>"
  shows "2 powi (expo x) \<le> \<bar>x\<bar> \<and> \<bar>x\<bar> < 2 powi (expo x + 1)"
proof -
  define n where "n = \<lfloor>\<bar>x\<bar>\<rfloor>"
  have n: "0 < n" using assms unfolding n_def by linarith
  have b: "1 \<le> bitlen n" using n by (simp add: bitlen_alt_def)
  have e: "expo x = bitlen n - 1" using assms by (simp add: expo_def n_def)
  from bitlen_bounds [OF n] have lo: "2 ^ nat (bitlen n - 1) \<le> n" and hi: "n < 2 ^ nat (bitlen n)"
    by simp_all
  have "(2::real) ^ nat (bitlen n - 1) \<le> of_int n"
    using lo by (metis of_int_le_iff of_int_numeral of_int_power)
  also have "\<dots> \<le> \<bar>x\<bar>" unfolding n_def by linarith
  finally have 1: "2 powi (expo x) \<le> \<bar>x\<bar>" using b by (simp add: e power_int_def)
  have "n + 1 \<le> 2 ^ nat (bitlen n)" using hi by simp
  then have "of_int (n + 1) \<le> (2::real) ^ nat (bitlen n)"
    by (metis of_int_le_iff of_int_numeral of_int_power)
  moreover have "\<bar>x\<bar> < of_int (n + 1)" unfolding n_def by linarith
  ultimately have "\<bar>x\<bar> < 2 ^ nat (bitlen n)" by linarith
  then have 2: "\<bar>x\<bar> < 2 powi (expo x + 1)" using b by (simp add: e power_int_def)
  from 1 2 show ?thesis ..
qed

lemma expo_bounds_lt1:
  assumes "x \<noteq> 0" "\<bar>x\<bar> < 1"
  shows "2 powi (expo x) \<le> \<bar>x\<bar> \<and> \<bar>x\<bar> < 2 powi (expo x + 1)"
proof -
  define y where "y = 1 / \<bar>x\<bar>"
  define c where "c = \<lceil>y\<rceil> - 1"
  have y: "1 < y" using assms by (simp add: y_def)
  have c: "0 < c" using y unfolding c_def by linarith
  have b: "1 \<le> bitlen c" using c by (simp add: bitlen_alt_def)
  have e: "expo x = - bitlen c" using assms by (simp add: expo_def c_def y_def)
  have x: "\<bar>x\<bar> = 1 / y" "0 < y" using assms by (simp_all add: y_def)
  from bitlen_bounds [OF c] have lo: "2 ^ nat (bitlen c - 1) \<le> c" and hi: "c < 2 ^ nat (bitlen c)"
    by simp_all
  have "2 ^ nat (bitlen c - 1) < \<lceil>y\<rceil>" using lo by (simp add: c_def)
  then have "of_int (2 ^ nat (bitlen c - 1)) < y" by (simp only: less_ceiling_iff)
  then have lo': "2 ^ nat (bitlen c - 1) < y" by simp
  have "\<lceil>y\<rceil> \<le> 2 ^ nat (bitlen c)" using hi by (simp add: c_def)
  then have "y \<le> of_int (2 ^ nat (bitlen c))" by (simp only: ceiling_le_iff)
  then have hi': "y \<le> 2 ^ nat (bitlen c)" by simp
  have P: "(2::real) powi (- bitlen c) = 1 / 2 ^ nat (bitlen c)"
    using b by (simp add: power_int_def field_simps)
  have "(2::real) powi (- bitlen c + 1) = 2 powi (- (bitlen c - 1))" by simp
  also have "\<dots> = 1 / 2 ^ nat (bitlen c - 1)"
    using b by (simp only: power_int_minus) (simp add: power_int_def field_simps)
  finally have Q: "(2::real) powi (- bitlen c + 1) = 1 / 2 ^ nat (bitlen c - 1)" .
  have "1 / 2 ^ nat (bitlen c) \<le> 1 / y" using hi' x(2) by (simp add: frac_le)
  then have 1: "2 powi (expo x) \<le> \<bar>x\<bar>" by (simp only: e P x(1))
  have "1 / y < 1 / 2 ^ nat (bitlen c - 1)" using lo' by (simp add: frac_less2)
  then have 2: "\<bar>x\<bar> < 2 powi (expo x + 1)" by (simp only: e Q x(1))
  from 1 2 show ?thesis ..
qed

lemma expo_bounds:
  "x \<noteq> 0 \<Longrightarrow> 2 powi (expo x) \<le> \<bar>x\<bar> \<and> \<bar>x\<bar> < 2 powi (expo x + 1)"
  using expo_bounds_ge1 [of x] expo_bounds_lt1 [of x] by linarith


lemma expo_unique:
  assumes "2 powi k \<le> \<bar>x\<bar>" "\<bar>x\<bar> < 2 powi (k + 1)"
  shows "expo x = k"
proof -
  have pos: "(0::real) < 2 powi k" by (simp add: zero_less_power_int)
  have nz: "x \<noteq> 0"
  proof
    assume "x = 0"
    with assms(1) have "(2::real) powi k \<le> 0" by simp
    with pos show False by linarith
  qed
  note eb = expo_bounds [OF nz]
  show ?thesis
  proof (rule ccontr)
    assume ne: "expo x \<noteq> k"
    show False
    proof (cases "expo x < k")
      case True
      then have "(2::real) powi (expo x + 1) \<le> 2 powi k" by (intro power_int_increasing) auto
      then show False using eb assms by linarith
    next
      case False
      then have "(2::real) powi (k + 1) \<le> 2 powi (expo x)" using ne by (intro power_int_increasing) auto
      then show False using eb assms by linarith
    qed
  qed
qed

lemma round64_scaled:
  assumes "p \<le> 1074" "2 ^ 52 \<le> \<bar>x\<bar> * 2 ^ p" "\<bar>x\<bar> * 2 ^ p < 2 ^ 53"
  shows "round64 x = of_int (rne (x * 2 ^ p)) / 2 ^ p"
proof -
  have pw: "(2::real) powi (52 - int p) = 2 ^ 52 / 2 ^ p" "(2::real) powi (52 - int p + 1) = 2 ^ 53 / 2 ^ p"
    by (simp_all add: power_int_diff power_int_add)
  have "expo x = 52 - int p"
    by (rule expo_unique) (use assms in \<open>simp_all only: pw, simp_all add: field_simps\<close>)
  moreover have "x \<noteq> 0" using assms(2) by auto
  moreover have "(2::real) powi (- int p) = 1 / 2 ^ p" by (simp add: power_int_minus field_simps)
  ultimately show ?thesis using assms(1) by (simp add: round64_def max_def)
qed

lemma rne_eval:
  assumes "\<bar>r - of_int m\<bar> < 1 / 2"
  shows "rne r = m"
proof -
  have b: "of_int m - 1 / 2 < r" "r < of_int m + 1 / 2" using assms by linarith+
  have "r < of_int (m + 1)" using b by simp
  then have "\<lfloor>r\<rfloor> < m + 1" by (simp only: floor_less_iff)
  moreover have "of_int (m - 1) \<le> r" using b by simp
  then have "m - 1 \<le> \<lfloor>r\<rfloor>" by (simp only: le_floor_iff)
  ultimately have "\<lfloor>r\<rfloor> = m \<or> \<lfloor>r\<rfloor> = m - 1" by linarith
  then show ?thesis
  proof
    assume f: "\<lfloor>r\<rfloor> = m"
    have "of_int m \<le> r" using f by linarith
    then have "r - of_int m < 1 / 2" using assms by linarith
    then show ?thesis by (simp add: rne_def Let_def f)
  next
    assume f: "\<lfloor>r\<rfloor> = m - 1"
    have "r < of_int m" using f by linarith
    then have "1 / 2 < r - of_int (m - 1)" using assms by (simp add: abs_less_iff) 
    then show ?thesis by (simp add: rne_def Let_def f)
  qed
qed

lemma rne_of_int: "rne (of_int m) = m"
  by (rule rne_eval) simp


lemma round64_eval:
  assumes "p \<le> 1074" "2 ^ 52 \<le> \<bar>x\<bar> * 2 ^ p" "\<bar>x\<bar> * 2 ^ p < 2 ^ 53"
    "\<bar>x * 2 ^ p - of_int m\<bar> < 1 / 2"
  shows "round64 x = of_int m / 2 ^ p"
  using round64_scaled [OF assms(1-3)] rne_eval [OF assms(4)] by simp

lemma expo_upper:
  assumes "x \<noteq> 0" "\<bar>x\<bar> < 2 powi k"
  shows "expo x < k"
proof (rule ccontr)
  assume "\<not> expo x < k"
  then have "(2::real) powi k \<le> 2 powi (expo x)" by (intro power_int_increasing) auto
  then show False using expo_bounds [OF assms(1)] assms(2) by linarith
qed


lemma round64_dyadic:
  assumes "\<bar>m\<bar> < 2 ^ 53" "p \<le> 1074"
  shows "round64 (of_int m / 2 ^ p) = of_int m / 2 ^ p"
proof (cases "m = 0")
  case True
  then show ?thesis by (simp add: round64_def)
next
  case False
  define x :: real where "x = of_int m / 2 ^ p"
  have nz: "x \<noteq> 0" using False by (simp add: x_def)
  have "\<bar>real_of_int m\<bar> < 2 ^ 53" using assms(1)
    by (metis of_int_abs of_int_less_iff of_int_numeral of_int_power)
  then have "\<bar>x\<bar> < 2 ^ 53 / 2 ^ p" by (simp add: x_def abs_divide divide_strict_right_mono)
  also have "\<dots> = 2 powi (53 - int p)" by (simp add: power_int_diff)
  finally have "expo x < 53 - int p" by (rule expo_upper [OF nz])
  define E where "E = max (expo x) (- 1022) - 52"
  have E: "E \<le> - int p" using \<open>expo x < 53 - int p\<close> assms(2) by (simp add: E_def)
  define k where "k = nat (- int p - E)"
  have k: "int k = - int p - E" using E by (simp add: k_def)
  have "(2::real) powi (- int p) = 2 powi E * 2 powi (int k)"
    unfolding k by (simp flip: power_int_add)
  then have q: "1 / 2 ^ p = 2 powi E * (2::real) ^ k" by (simp add: power_int_minus field_simps)
  have pos: "(0::real) < 2 powi E" by (simp add: zero_less_power_int)
  have "x = of_int m * (1 / 2 ^ p)" by (simp add: x_def)
  also have "\<dots> = of_int (m * 2 ^ k) * 2 powi E" by (simp add: q)
  finally have xe: "x = of_int (m * 2 ^ k) * 2 powi E" .
  then have "x / 2 powi E = of_int (m * 2 ^ k)" using pos by simp
  then have "rne (x / 2 powi E) = m * 2 ^ k" by (simp only: rne_of_int)
  then have "round64 x = of_int (m * 2 ^ k) * 2 powi E"
    using nz by (simp add: round64_def E_def Let_def)
  then show ?thesis using xe by (simp add: x_def)
qed


lemma round64_int: "\<bar>m\<bar> < 2 ^ 53 \<Longrightarrow> round64 (of_int m) = of_int m"
  using round64_dyadic [of m 0] by simp




lemma round64_half: "round64 (1 / 2) = 1 / 2"
  using round64_dyadic [of 1 1] by simp

lemma round64_12: "round64 12 = 12"
  using round64_int [of 12] by simp


section \<open>Properties of the calendrical derivation\<close>

lemma fdiv_360_12: "fdiv 360 12 = 30"
  using round64_int [of 30] by (simp add: fdiv_def)

lemma calculateTithi_scenario:
  "calculateTithi 280 10 = \<lparr>tithi = 8, tithiName = Some ''Ashtami'', paksha = ''Shukla''\<rparr>"
  "calculateTithi_script 280 10 = \<lparr>tithi = 8, tithiName = Some ''Ashtami'', paksha = ''Shukla''\<rparr>"
proof -
  have a: "fsub 10 280 = - 270" using round64_int [of "- 270"] by (simp add: fsub_def)
  have b: "fadd (- 270) 360 = 90" using round64_int [of 90] by (simp add: fadd_def)
  have c: "fdiv 90 12 = 15 / 2" using round64_dyadic [of 15 1] by (simp add: fdiv_def)
  have f: "\<lfloor>15 / 2 :: real\<rfloor> = 7" by simp
  show "calculateTithi 280 10 = \<lparr>tithi = 8, tithiName = Some ''Ashtami'', paksha = ''Shukla''\<rparr>"
    unfolding calculateTithi_def Let_def a by (simp add: b c f js_index_def tithiNames_def)
  show "calculateTithi_script 280 10 =
      \<lparr>tithi = 8, tithiName = Some ''Ashtami'', paksha = ''Shukla''\<rparr>"
    unfolding calculateTithi_script_def Let_def a
    by (simp add: b c f js_index_def tithiNames_script_def)
qed

text \<open>
  C4 at a failing input. The Sun is at the binary64 value nearest to \<open>1e-14\<close> degrees,
  \<open>6338253001141147 / 2^99\<close>, the Moon at 0; both are in \<open>[0, 360)\<close>. The difference is
  negative and adding 360 to it rounds to exactly 360, so both copies of \<open>calculateTithi\<close>
  return tithi 31 and no name, where the formula of the claim gives 30. At the
  specification's scenario (280, 10) both copies return tithi 8, Ashtami, Shukla.
\<close>

theorem calculateTithi_rounds_to_31:
  "round64 (6338253001141147 / 2 ^ 99) = 6338253001141147 / 2 ^ 99 \<and>
   (0::real) \<le> 6338253001141147 / 2 ^ 99 \<and> 6338253001141147 / 2 ^ 99 < (360::real) \<and>
   calculateTithi (6338253001141147 / 2 ^ 99) 0 =
     \<lparr>tithi = 31, tithiName = None, paksha = ''Krishna''\<rparr> \<and>
   calculateTithi_script (6338253001141147 / 2 ^ 99) 0 =
     \<lparr>tithi = 31, tithiName = None, paksha = ''Krishna''\<rparr> \<and>
   \<lfloor>mod360 (0 - 6338253001141147 / 2 ^ 99) / 12\<rfloor> + 1 = 30 \<and>
   calculateTithi 280 10 = \<lparr>tithi = 8, tithiName = Some ''Ashtami'', paksha = ''Shukla''\<rparr> \<and>
   calculateTithi_script 280 10 = \<lparr>tithi = 8, tithiName = Some ''Ashtami'', paksha = ''Shukla''\<rparr>"
proof -
  define x :: real where "x = 6338253001141147 / 2 ^ 99"
  have d: "round64 x = x"
    unfolding x_def using round64_dyadic [of 6338253001141147 99] by simp
  have r: "0 \<le> x" "x < 360" "0 < x" by (simp_all add: x_def)
  have a: "fsub 0 x = - x"
    unfolding x_def fsub_def using round64_dyadic [of "- 6338253001141147" 99] by simp
  have b: "fadd (- x) 360 = 360"
    unfolding x_def fadd_def
    using round64_eval [of 44 "- (6338253001141147 / 2 ^ 99) + 360" "360 * 2 ^ 44"] by simp
  have t: "calculateTithi x 0 = \<lparr>tithi = 31, tithiName = None, paksha = ''Krishna''\<rparr>"
    unfolding calculateTithi_def Let_def a using r(3)
    by (simp add: b fdiv_360_12 js_index_def tithiNames_def)
  have s: "calculateTithi_script x 0 = \<lparr>tithi = 31, tithiName = None, paksha = ''Krishna''\<rparr>"
    unfolding calculateTithi_script_def Let_def a using r(3)
    by (simp add: b fdiv_360_12 js_index_def tithiNames_script_def)
  have "\<lfloor>(0 - x) / 360\<rfloor> = - 1" unfolding x_def by (intro floor_unique) simp_all
  then have m: "mod360 (0 - x) = 360 - x" by (simp add: mod360_def)
  have "\<lfloor>(360 - x) / 12\<rfloor> = 29" unfolding x_def by (intro floor_unique) simp_all
  then have f: "\<lfloor>mod360 (0 - x) / 12\<rfloor> + 1 = 30" unfolding m by simp
  show ?thesis
    using d r(1,2) t s f calculateTithi_scenario unfolding x_def by (intro conjI)
qed

text \<open>
  C9 at failing inputs. With the Sun at 20 and the Moon at 10 the tithi is 30; a full turn
  added to the Sun longitude gives 380, the one conditional addition of 360 leaves the angle
  at -10, and both copies return tithi 0 and no name. With the Sun at the binary64 value
  of 0.1 and the Moon at that of 108.1 the tithi is 10, and 9 after the full turn: the
  angle is then 107.99999999999997.
\<close>

theorem calculateTithi_full_turn:
  "calculateTithi 20 10 = \<lparr>tithi = 30, tithiName = Some ''Amavasya'', paksha = ''Krishna''\<rparr> \<and>
   fadd 20 360 = 380 \<and>
   calculateTithi (fadd 20 360) 10 = \<lparr>tithi = 0, tithiName = None, paksha = ''Shukla''\<rparr> \<and>
   calculateTithi_script (fadd 20 360) 10 = \<lparr>tithi = 0, tithiName = None, paksha = ''Shukla''\<rparr> \<and>
   round64 (3602879701896397 / 2 ^ 55) = 3602879701896397 / 2 ^ 55 \<and>
   round64 (3803430622802739 / 2 ^ 45) = 3803430622802739 / 2 ^ 45 \<and>
   tithi (calculateTithi (3602879701896397 / 2 ^ 55) (3803430622802739 / 2 ^ 45)) = 10 \<and>
   tithi (calculateTithi (fadd (3602879701896397 / 2 ^ 55) 360) (3803430622802739 / 2 ^ 45)) = 9"
proof -
  have a1: "fsub 10 20 = - 10" using round64_int [of "- 10"] by (simp add: fsub_def)
  have a2: "fadd (- 10) 360 = 350" using round64_int [of 350] by (simp add: fadd_def)
  have a3: "fdiv 350 12 = 8209686820727467 / 2 ^ 48"
    unfolding fdiv_def using round64_eval [of 48 "350 / 12" 8209686820727467] by simp
  have a4: "\<lfloor>8209686820727467 / 2 ^ 48 :: real\<rfloor> = 29" by simp
  have t1: "calculateTithi 20 10 =
      \<lparr>tithi = 30, tithiName = Some ''Amavasya'', paksha = ''Krishna''\<rparr>"
    unfolding calculateTithi_def Let_def a1
    by (simp add: a2 a3 a4 js_index_def tithiNames_def)
  have b0: "fadd 20 360 = 380" using round64_int [of 380] by (simp add: fadd_def)
  have b1: "fsub 10 380 = - 370" using round64_int [of "- 370"] by (simp add: fsub_def)
  have b2: "fadd (- 370) 360 = - 10" using round64_int [of "- 10"] by (simp add: fadd_def)
  have b3: "fdiv (- 10) 12 = - 7505999378950827 / 2 ^ 53"
    unfolding fdiv_def using round64_eval [of 53 "- 10 / 12" "- 7505999378950827"] by simp
  have b4: "\<lfloor>- 7505999378950827 / 2 ^ 53 :: real\<rfloor> = - 1" by simp
  have t2: "calculateTithi 380 10 = \<lparr>tithi = 0, tithiName = None, paksha = ''Shukla''\<rparr>"
    unfolding calculateTithi_def Let_def b1
    by (simp add: b2 b3 b4 js_index_def tithiNames_def)
  have t3: "calculateTithi_script 380 10 = \<lparr>tithi = 0, tithiName = None, paksha = ''Shukla''\<rparr>"
    unfolding calculateTithi_script_def Let_def b1
    by (simp add: b2 b3 b4 js_index_def tithiNames_script_def)
  define s :: real where "s = 3602879701896397 / 2 ^ 55"
  define m :: real where "m = 3803430622802739 / 2 ^ 45"
  define s' :: real where "s' = 3167473097297101 / 2 ^ 43"
  define g :: real where "g = - 8866461766385665 / 2 ^ 45"
  define h :: real where "h = 3799912185593855 / 2 ^ 45"
  have ds: "round64 s = s" unfolding s_def using round64_dyadic [of 3602879701896397 55] by simp
  have dm: "round64 m = m" unfolding m_def using round64_dyadic [of 3803430622802739 45] by simp
  have c1: "fsub m s = 108"
    unfolding fsub_def s_def m_def
    using round64_eval [of 46 "3803430622802739 / 2 ^ 45 - 3602879701896397 / 2 ^ 55"
        "108 * 2 ^ 46"] by simp
  have c2: "fdiv 108 12 = 9" using round64_int [of 9] by (simp add: fdiv_def)
  have u1: "tithi (calculateTithi s m) = 10"
    unfolding calculateTithi_def Let_def c1 by (simp add: c2)
  have e0: "fadd s 360 = s'"
    unfolding fadd_def s_def s'_def
    using round64_eval [of 44 "3602879701896397 / 2 ^ 55 + 360" 6334946194594202] by simp
  have e1: "fsub m s' = g"
    unfolding fsub_def m_def s'_def g_def
    using round64_eval [of 45 "3803430622802739 / 2 ^ 45 - 3167473097297101 / 2 ^ 43"
        "- 8866461766385665"] by simp
  have e2: "fadd g 360 = h"
    unfolding fadd_def g_def h_def
    using round64_eval [of 46 "- 8866461766385665 / 2 ^ 45 + 360" 7599824371187710] by simp
  have e3: "fdiv h 12 = 5066549580791807 / 2 ^ 49"
    unfolding fdiv_def h_def
    using round64_eval [of 49 "3799912185593855 / 2 ^ 45 / 12" 5066549580791807] by simp
  have e4: "\<lfloor>5066549580791807 / 2 ^ 49 :: real\<rfloor> = 8" by simp
  have gneg: "g < 0" by (simp add: g_def)
  have u2: "tithi (calculateTithi (fadd s 360) m) = 9"
    unfolding calculateTithi_def Let_def e0 e1 using gneg by (simp add: e2 e3 e4)
  show ?thesis
    using t1 b0 t2 t3 ds dm u1 u2 unfolding s_def m_def by simp
qed

section \<open>Properties of the nakshatra index\<close>

lemma nakshatra_index_360: "nakshatra_index 360 = 27"
proof -
  have "fmul 360 27 = 9720" using round64_int [of 9720] by (simp add: fmul_def)
  moreover have "fdiv 9720 360 = 27" using round64_int [of 27] by (simp add: fdiv_def)
  ultimately show ?thesis by (simp add: nakshatra_index_def)
qed

text \<open>
  The product is rounded before the division: at the binary64 value of 93.33333333333333
  the product is exactly 2520 and the index 7, where the exact quotient is below 7.
\<close>

lemma nakshatra_index_rounds_up:
  "nakshatra_index (6567749456581973 / 2 ^ 46) = 7"
  "\<lfloor>(6567749456581973 / 2 ^ 46) * 27 / (360::real)\<rfloor> = 6"
proof -
  have "fmul (6567749456581973 / 2 ^ 46) 27 = 2520"
    unfolding fmul_def
    using round64_eval [of 41 "6567749456581973 / 2 ^ 46 * 27" "2520 * 2 ^ 41"] by simp
  moreover have "fdiv 2520 360 = 7" using round64_int [of 7] by (simp add: fdiv_def)
  ultimately show "nakshatra_index (6567749456581973 / 2 ^ 46) = 7"
    by (simp add: nakshatra_index_def)
  show "\<lfloor>(6567749456581973 / 2 ^ 46) * 27 / (360::real)\<rfloor> = 6"
    by (intro floor_unique) simp_all
qed

text \<open>
  C8 at a failing input. At a longitude of exactly 360 degrees, the upper end of the range
  of the claim, the position builder computes index 27: there is no clamp, the table of 27
  names has no entry there (\<open>nakshatra\<close> is \<open>undefined\<close>) and the number for display is
  28. The clamp of the claim gives 26, the last name.
\<close>

theorem position_of_360_unclamped:
  "nakshatra_index 360 = 27 \<and>
   clamp 0 26 (nakshatra_index 360) = 26 \<and>
   js_index nakshtraNames 26 = Some ''Revati'' \<and>
   length nakshtraNames = 27 \<and>
   nakshatra (position_of ''Moon'' 360) = None \<and>
   nakshatra_num (position_of ''Moon'' 360) = 28"
  by (simp add: nakshatra_index_360 clamp_def position_of_def js_index_def nakshtraNames_def)

section \<open>Properties of the daylight partitioner\<close>

lemma those_map_total:
  "(\<forall>x \<in> set xs. f x \<noteq> None) \<Longrightarrow> those (map f xs) = Some (map (\<lambda>x. the (f x)) xs)"
  by (induction xs) auto


lemma dayLength_half_day:
  assumes "b - a = 1 / 2"
  shows "dayLength a b = 12"
  unfolding dayLength_def fsub_def fmul_def assms round64_half by (simp add: round64_12)


text \<open>
  The three sums of the source are binary64 values for the Julian day of a calendar date at
  0h: nothing is lost by writing the day window without rounding.
\<close>

lemma day_window_binary64:
  assumes "jd = of_int n + 1 / 2" "\<bar>n\<bar> < 2 ^ 50"
  shows "fadd jd (fdiv 6 24) = sunriseJD jd" "fadd jd (fdiv 18 24) = sunsetJD jd"
proof -
  have q: "fdiv 6 24 = 1 / 4" "fdiv 18 24 = 3 / 4"
    using round64_dyadic [of 1 2] round64_dyadic [of 3 2] by (simp_all add: fdiv_def)
  have a: "jd + 1 / 4 = of_int (4 * n + 3) / 2 ^ 2" "jd + 3 / 4 = of_int (4 * n + 5) / 2 ^ 2"
    by (simp_all add: assms(1))
  have "\<bar>4 * n + 3\<bar> < 2 ^ 53" "\<bar>4 * n + 5\<bar> < 2 ^ 53" using assms(2) by simp_all
  then have "round64 (jd + 1 / 4) = jd + 1 / 4" "round64 (jd + 3 / 4) = jd + 3 / 4"
    unfolding a by (simp_all only: round64_dyadic)
  then show "fadd jd (fdiv 6 24) = sunriseJD jd" "fadd jd (fdiv 18 24) = sunsetJD jd"
    by (simp_all add: fadd_def q sunriseJD_def sunsetJD_def)
qed













section \<open>The day window of the muhurta calculation\<close>

lemma muhurta_entry_total:
  assumes "\<forall>x. revjul sw x \<noteq> None"
  shows "muhurta_entry sw random a b i \<noteq> None"
proof -
  obtain s where s: "revjul sw (startTime a b i) = Some s" using assms by auto
  obtain e where e: "revjul sw (endTime a b i) = Some e" using assms by auto
  obtain c where c: "revjul sw (fdiv (fadd (startTime a b i) (endTime a b i)) 2) = Some c"
    using assms by auto
  show ?thesis by (simp add: muhurta_entry_def Let_def s e c)
qed

lemma dayLength_fixed: "dayLength (sunriseJD jd) (sunsetJD jd) = 12"
  by (rule dayLength_half_day) (simp add: sunriseJD_def sunsetJD_def)

lemma calculateMuhurta_success_fields:
  assumes "r_success (calculateMuhurta sw random y m d lat lon)"
  shows "\<exists>jd. julday sw y m d 0 = Some jd \<and>
     r_sunrise (calculateMuhurta sw random y m d lat lon) = revjul sw (sunriseJD jd) \<and>
     r_sunset (calculateMuhurta sw random y m d lat lon) = revjul sw (sunsetJD jd) \<and>
     r_dayLength (calculateMuhurta sw random y m d lat lon) = Some 12 \<and>
     r_message (calculateMuhurta sw random y m d lat lon) = None"
  using assms
  by (auto simp: calculateMuhurta_def failure_def dayLength_fixed
      split: Option.bind_splits option.splits)

lemma calculateMuhurta_success:
  assumes "set_topo sw lat lon 0 \<noteq> None" "julday sw y m d 0 \<noteq> None" "\<forall>x. revjul sw x \<noteq> None"
  shows "r_success (calculateMuhurta sw random y m d lat lon)"
proof -
  obtain jd where jd: "julday sw y m d 0 = Some jd" using assms(2) by auto
  obtain u where u: "set_topo sw lat lon 0 = Some u" using assms(1) by auto
  obtain ms where ms: "those (map (muhurta_entry sw random (sunriseJD jd) (sunsetJD jd)) [0..<15])
      = Some ms"
    using those_map_total [of "[0..<15]" "muhurta_entry sw random (sunriseJD jd) (sunsetJD jd)"]
      muhurta_entry_total [OF assms(3)] by simp
  obtain r where r: "revjul sw (sunriseJD jd) = Some r" using assms(3) by auto
  obtain s where s: "revjul sw (sunsetJD jd) = Some s" using assms(3) by auto
  show ?thesis
    by (simp add: calculateMuhurta_def jd u ms r s)
qed

lemma positions_ignore_rise_trans:
  "calculatePlanetaryPositions (sw\<lparr>rise_trans := q\<rparr>) = calculatePlanetaryPositions sw"
  by (intro ext) (simp add: calculatePlanetaryPositions_def)

lemma muhurta_entry_ignores_rise_trans:
  "muhurta_entry (sw\<lparr>rise_trans := q\<rparr>) = muhurta_entry sw"
  by (intro ext) (simp add: muhurta_entry_def positions_ignore_rise_trans)

lemma calculateMuhurta_ignores_rise_trans:
  "calculateMuhurta (sw\<lparr>rise_trans := q\<rparr>) random y m d lat lon =
   calculateMuhurta sw random y m d lat lon"
  by (simp add: calculateMuhurta_def muhurta_entry_ignores_rise_trans)

lemma muhurta_entry_script_total:
  assumes "\<forall>x. revjul sw x \<noteq> None" "\<forall>y m d h. julday sw y m d h \<noteq> None"
    "\<forall>jd p. calc_ut sw jd p \<noteq> None"
  shows "muhurta_entry_script sw random a b i \<noteq> None"
proof -
  obtain s where s: "revjul sw (startTime a b i) = Some s" using assms(1) by auto
  obtain e where e: "revjul sw (endTime a b i) = Some e" using assms(1) by auto
  obtain c where c: "revjul sw (fdiv (fadd (startTime a b i) (endTime a b i)) 2) = Some c"
    using assms(1) by auto
  have "calculatePlanetaryPositions_script sw yy mm dd hh mi se \<noteq> None" for yy mm dd hh mi se
  proof -
    obtain jd where jd: "julday sw yy mm dd (fadd (fadd hh (fdiv mi 60)) (fdiv se 3600)) = Some jd"
      using assms(2) by (meson not_None_eq)
    show ?thesis
      using those_map_total [of planets
          "\<lambda>(ident, name). map_option (position_of name) (calc_ut sw jd ident)"] assms(3)
      by (auto simp: calculatePlanetaryPositions_script_def jd split: prod.splits)
  qed
  then obtain ps where "calculatePlanetaryPositions_script sw (rj_year c) (rj_month c) (rj_day c)
      (rj_hour c) (of_int \<lfloor>fmul (fsub (rj_hour c) (of_int \<lfloor>rj_hour c\<rfloor>)) 60\<rfloor>) 0 = Some ps"
    by blast
  then show ?thesis by (simp add: muhurta_entry_script_def Let_def s e c)
qed

lemma calculateMuhurta_script_success_fields:
  assumes "r_success (calculateMuhurta_script sw random y m d lat lon)"
  shows "\<exists>jd. julday sw y m d 0 = Some jd \<and>
     r_sunrise (calculateMuhurta_script sw random y m d lat lon) = revjul sw (sunriseJD jd) \<and>
     r_sunset (calculateMuhurta_script sw random y m d lat lon) = revjul sw (sunsetJD jd) \<and>
     r_dayLength (calculateMuhurta_script sw random y m d lat lon) = Some 12 \<and>
     r_message (calculateMuhurta_script sw random y m d lat lon) = None"
  using assms
  by (auto simp: calculateMuhurta_script_def failure_def dayLength_fixed
      split: Option.bind_splits option.splits)

lemma calculateMuhurta_script_success:
  assumes "\<forall>y m d h. julday sw y m d h \<noteq> None" "\<forall>x. revjul sw x \<noteq> None"
    "\<forall>jd p. calc_ut sw jd p \<noteq> None"
  shows "r_success (calculateMuhurta_script sw random y m d lat lon)"
proof -
  obtain jd where jd: "julday sw y m d 0 = Some jd" using assms(1) by (meson not_None_eq)
  obtain ms where ms: "those (map (muhurta_entry_script sw random (sunriseJD jd) (sunsetJD jd))
      [0..<15]) = Some ms"
    using those_map_total [of "[0..<15]"
        "muhurta_entry_script sw random (sunriseJD jd) (sunsetJD jd)"]
      muhurta_entry_script_total [OF assms(2) assms(1) assms(3)] by simp
  obtain r where r: "revjul sw (sunriseJD jd) = Some r" using assms(2) by auto
  obtain s where s: "revjul sw (sunsetJD jd) = Some s" using assms(2) by auto
  show ?thesis
    by (simp add: calculateMuhurta_script_def jd ms r s)
qed

lemma positions_script_ignore_rise_trans:
  "calculatePlanetaryPositions_script (sw\<lparr>rise_trans := q\<rparr>) =
   calculatePlanetaryPositions_script sw"
  by (intro ext) (simp add: calculatePlanetaryPositions_script_def)

lemma muhurta_entry_script_ignores_rise_trans:
  "muhurta_entry_script (sw\<lparr>rise_trans := q\<rparr>) = muhurta_entry_script sw"
  by (intro ext) (simp add: muhurta_entry_script_def positions_script_ignore_rise_trans)

lemma calculateMuhurta_script_ignores_rise_trans:
  "calculateMuhurta_script (sw\<lparr>rise_trans := q\<rparr>) random y m d lat lon =
   calculateMuhurta_script sw random y m d lat lon"
  by (simp add: calculateMuhurta_script_def muhurta_entry_script_ignores_rise_trans)

lemma sweph_double_total:
  "set_topo sweph_double lat lon alt \<noteq> None"
  "julday sweph_double y m d h \<noteq> None"
  "revjul sweph_double x \<noteq> None"
  "calc_ut sweph_double jd p \<noteq> None"
  by (simp_all add: sweph_double_def)

lemma sweph_double_julday: "julday sweph_double 2025 6 30 0 = Some (59 / 2)"
  by (simp add: sweph_double_def)

lemma sweph_double_revjul:
  "revjul sweph_double (sunriseJD (59 / 2)) = Some \<lparr>rj_year = 2025, rj_month = 6, rj_day = 30, rj_hour = 6\<rparr>"
  "revjul sweph_double (sunsetJD (59 / 2)) = Some \<lparr>rj_year = 2025, rj_month = 6, rj_day = 30, rj_hour = 18\<rparr>"
proof -
  have a: "\<lfloor>(59 / 2 + 6 / 24 + 1 / 2 :: real)\<rfloor> = 30" by (intro floor_unique) auto
  have b: "\<lfloor>(59 / 2 + 18 / 24 + 1 / 2 :: real)\<rfloor> = 30" by (intro floor_unique) auto
  show "revjul sweph_double (sunriseJD (59 / 2)) = Some \<lparr>rj_year = 2025, rj_month = 6, rj_day = 30, rj_hour = 6\<rparr>"
    using a by (simp add: sweph_double_def sunriseJD_def)
  show "revjul sweph_double (sunsetJD (59 / 2)) = Some \<lparr>rj_year = 2025, rj_month = 6, rj_day = 30, rj_hour = 18\<rparr>"
    using b by (simp add: sweph_double_def sunsetJD_def)
qed

lemma sweph_double_provider:
  "provider_rise_set sweph_double (59 / 2) lat lon =
     Some (\<lparr>rj_year = 2025, rj_month = 6, rj_day = 30, rj_hour = 5\<rparr>,
           \<lparr>rj_year = 2025, rj_month = 6, rj_day = 30, rj_hour = 19\<rparr>)"
proof -
  have a: "\<lfloor>(59 / 2 + 5 / 24 + 1 / 2 :: real)\<rfloor> = 30" by (intro floor_unique) auto
  have b: "\<lfloor>(59 / 2 + 19 / 24 + 1 / 2 :: real)\<rfloor> = 30" by (intro floor_unique) auto
  show ?thesis
    using a b
    by (simp add: provider_rise_set_def sweph_double_def SE_CALC_RISE_def SE_CALC_SET_def)
qed

text \<open>
  C6 as stated fails: with a provider whose rise and set query answers 05:00 and 19:00, both
  copies of the muhurta calculation succeed, carry no message, and report 06:00 and 18:00.
\<close>

theorem calculateMuhurta_placeholder_counterexample:
  "r_success (calculateMuhurta sweph_double (\<lambda>k. 0) 2025 6 30 (19076 / 1000) (728777 / 10000)) \<and>
   r_message (calculateMuhurta sweph_double (\<lambda>k. 0) 2025 6 30 (19076 / 1000) (728777 / 10000)) = None \<and>
   r_sunrise (calculateMuhurta sweph_double (\<lambda>k. 0) 2025 6 30 (19076 / 1000) (728777 / 10000)) =
     Some \<lparr>rj_year = 2025, rj_month = 6, rj_day = 30, rj_hour = 6\<rparr> \<and>
   r_sunset (calculateMuhurta sweph_double (\<lambda>k. 0) 2025 6 30 (19076 / 1000) (728777 / 10000)) =
     Some \<lparr>rj_year = 2025, rj_month = 6, rj_day = 30, rj_hour = 18\<rparr> \<and>
   provider_rise_set sweph_double (59 / 2) (19076 / 1000) (728777 / 10000) =
     Some (\<lparr>rj_year = 2025, rj_month = 6, rj_day = 30, rj_hour = 5\<rparr>,
           \<lparr>rj_year = 2025, rj_month = 6, rj_day = 30, rj_hour = 19\<rparr>) \<and>
   \<not> honest_day_window sweph_double 2025 6 30 (19076 / 1000) (728777 / 10000)
       (calculateMuhurta sweph_double (\<lambda>k. 0) 2025 6 30 (19076 / 1000) (728777 / 10000)) \<and>
   \<not> honest_day_window sweph_double 2025 6 30 (19076 / 1000) (728777 / 10000)
       (calculateMuhurta_script sweph_double (\<lambda>k. 0) 2025 6 30 (19076 / 1000) (728777 / 10000))"
proof -
  let ?r = "calculateMuhurta sweph_double (\<lambda>k. 0) 2025 6 30 (19076 / 1000) (728777 / 10000)"
  let ?s = "calculateMuhurta_script sweph_double (\<lambda>k. 0) 2025 6 30 (19076 / 1000) (728777 / 10000)"
  have ok: "r_success ?r"
    by (intro calculateMuhurta_success) (simp_all add: sweph_double_total)
  obtain jd where jd: "julday sweph_double 2025 6 30 0 = Some jd"
      "r_sunrise ?r = revjul sweph_double (sunriseJD jd)"
      "r_sunset ?r = revjul sweph_double (sunsetJD jd)" "r_message ?r = None"
    using calculateMuhurta_success_fields [OF ok] by blast
  have jdv: "jd = 59 / 2" using jd(1) unfolding sweph_double_julday by simp
  have f: "r_sunrise ?r = Some \<lparr>rj_year = 2025, rj_month = 6, rj_day = 30, rj_hour = 6\<rparr>"
    "r_sunset ?r = Some \<lparr>rj_year = 2025, rj_month = 6, rj_day = 30, rj_hour = 18\<rparr>"
    "r_message ?r = None"
    unfolding jd(2,3,4) jdv by (rule sweph_double_revjul refl)+
  have ok': "r_success ?s"
    by (intro calculateMuhurta_script_success) (simp_all add: sweph_double_total)
  obtain jd' where jd': "julday sweph_double 2025 6 30 0 = Some jd'"
      "r_sunrise ?s = revjul sweph_double (sunriseJD jd')" "r_message ?s = None"
    using calculateMuhurta_script_success_fields [OF ok'] by blast
  have jdv': "jd' = 59 / 2" using jd'(1) unfolding sweph_double_julday by simp
  have f': "r_sunrise ?s = Some \<lparr>rj_year = 2025, rj_month = 6, rj_day = 30, rj_hour = 6\<rparr>"
    "r_message ?s = None"
    unfolding jd'(2,3) jdv' by (rule sweph_double_revjul refl)+
  show ?thesis
    using ok f ok' f'
    by (simp add: honest_day_window_def sweph_double_julday sweph_double_provider)
qed

text \<open>
  C6, amended. For every date and location, a successful result of the muhurta calculation
  (either copy) has as sunrise and sunset the conversions of the Julian day of the date at 0h
  plus 6/24 and plus 18/24, a day length of 12 hours and no message; the provider's rise and
  set query is never consulted (replacing it changes no result). The calculation of sweph-poc
  succeeds whenever the provider calls it makes do not throw.
\<close>

theorem calculateMuhurta_fixed_day_window:
  "(r_success (calculateMuhurta sw random y m d lat lon) \<longrightarrow>
      (\<exists>jd. julday sw y m d 0 = Some jd \<and>
         r_sunrise (calculateMuhurta sw random y m d lat lon) = revjul sw (jd + 6 / 24) \<and>
         r_sunset (calculateMuhurta sw random y m d lat lon) = revjul sw (jd + 18 / 24) \<and>
         r_dayLength (calculateMuhurta sw random y m d lat lon) = Some 12 \<and>
         r_message (calculateMuhurta sw random y m d lat lon) = None)) \<and>
   (r_success (calculateMuhurta_script sw random y m d lat lon) \<longrightarrow>
      (\<exists>jd. julday sw y m d 0 = Some jd \<and>
         r_sunrise (calculateMuhurta_script sw random y m d lat lon) = revjul sw (jd + 6 / 24) \<and>
         r_sunset (calculateMuhurta_script sw random y m d lat lon) = revjul sw (jd + 18 / 24) \<and>
         r_dayLength (calculateMuhurta_script sw random y m d lat lon) = Some 12 \<and>
         r_message (calculateMuhurta_script sw random y m d lat lon) = None)) \<and>
   calculateMuhurta (sw\<lparr>rise_trans := q\<rparr>) random y m d lat lon =
     calculateMuhurta sw random y m d lat lon \<and>
   calculateMuhurta_script (sw\<lparr>rise_trans := q\<rparr>) random y m d lat lon =
     calculateMuhurta_script sw random y m d lat lon \<and>
   (set_topo sw lat lon 0 \<noteq> None \<and> julday sw y m d 0 \<noteq> None \<and> (\<forall>x. revjul sw x \<noteq> None) \<longrightarrow>
      r_success (calculateMuhurta sw random y m d lat lon))"
proof (intro conjI impI)
  assume "r_success (calculateMuhurta sw random y m d lat lon)"
  then show "\<exists>jd. julday sw y m d 0 = Some jd \<and>
         r_sunrise (calculateMuhurta sw random y m d lat lon) = revjul sw (jd + 6 / 24) \<and>
         r_sunset (calculateMuhurta sw random y m d lat lon) = revjul sw (jd + 18 / 24) \<and>
         r_dayLength (calculateMuhurta sw random y m d lat lon) = Some 12 \<and>
         r_message (calculateMuhurta sw random y m d lat lon) = None"
    using calculateMuhurta_success_fields [of sw random y m d lat lon]
    unfolding sunriseJD_def sunsetJD_def by blast
next
  assume "r_success (calculateMuhurta_script sw random y m d lat lon)"
  then show "\<exists>jd. julday sw y m d 0 = Some jd \<and>
         r_sunrise (calculateMuhurta_script sw random y m d lat lon) = revjul sw (jd + 6 / 24) \<and>
         r_sunset (calculateMuhurta_script sw random y m d lat lon) = revjul sw (jd + 18 / 24) \<and>
         r_dayLength (calculateMuhurta_script sw random y m d lat lon) = Some 12 \<and>
         r_message (calculateMuhurta_script sw random y m d lat lon) = None"
    using calculateMuhurta_script_success_fields [of sw random y m d lat lon]
    unfolding sunriseJD_def sunsetJD_def by blast
next
  show "calculateMuhurta (sw\<lparr>rise_trans := q\<rparr>) random y m d lat lon =
     calculateMuhurta sw random y m d lat lon"
    by (rule calculateMuhurta_ignores_rise_trans)
  show "calculateMuhurta_script (sw\<lparr>rise_trans := q\<rparr>) random y m d lat lon =
     calculateMuhurta_script sw random y m d lat lon"
    by (rule calculateMuhurta_script_ignores_rise_trans)
next
  assume "set_topo sw lat lon 0 \<noteq> None \<and> julday sw y m d 0 \<noteq> None \<and> (\<forall>x. revjul sw x \<noteq> None)"
  then show "r_success (calculateMuhurta sw random y m d lat lon)"
    by (intro calculateMuhurta_success) auto
qed

theorem calculateMuhurta_fixed_day_window_witness:
  "set_topo sweph_double (516 / 10) 0 0 \<noteq> None \<and> julday sweph_double 2025 6 30 0 \<noteq> None \<and>
   (\<forall>x. revjul sweph_double x \<noteq> None) \<and>
   r_success (calculateMuhurta sweph_double (\<lambda>k. 0) 2025 6 30 (516 / 10) 0) \<and>
   (\<exists>jd. julday sweph_double 2025 6 30 0 = Some jd \<and>
      r_sunrise (calculateMuhurta sweph_double (\<lambda>k. 0) 2025 6 30 (516 / 10) 0) =
        revjul sweph_double (jd + 6 / 24) \<and>
      r_sunset (calculateMuhurta sweph_double (\<lambda>k. 0) 2025 6 30 (516 / 10) 0) =
        revjul sweph_double (jd + 18 / 24) \<and>
      r_dayLength (calculateMuhurta sweph_double (\<lambda>k. 0) 2025 6 30 (516 / 10) 0) = Some 12 \<and>
      r_message (calculateMuhurta sweph_double (\<lambda>k. 0) 2025 6 30 (516 / 10) 0) = None)"
proof -
  note t = calculateMuhurta_fixed_day_window
    [of sweph_double "\<lambda>k. 0" 2025 6 30 "516 / 10" 0 "rise_trans sweph_double"]
  have h: "set_topo sweph_double (516 / 10) 0 0 \<noteq> None \<and> julday sweph_double 2025 6 30 0 \<noteq> None \<and>
      (\<forall>x. revjul sweph_double x \<noteq> None)"
    by (simp add: sweph_double_total)
  have ok: "r_success (calculateMuhurta sweph_double (\<lambda>k. 0) 2025 6 30 (516 / 10) 0)"
    using t h by blast
  show ?thesis
    using t h ok by blast
qed

section \<open>The fifteen muhurtas of a result\<close>

text \<open>
  The labels are cut to the minute after a rounded multiplication: for an hour of 7.6 (the
  binary64 value \<open>4278419646001971 / 2^49\<close>) the minutes come to 35.99999999999998 and
  the label reads 07:35.
\<close>

lemma formatTime_truncates:
  "formatTime \<lparr>rj_year = 2025, rj_month = 6, rj_day = 30, rj_hour = 4278419646001971 / 2 ^ 49\<rparr>
     = ''07:35''"
proof -
  define h :: real where "h = 4278419646001971 / 2 ^ 49"
  define x :: real where "x = 337769972052787 / 2 ^ 49"
  define y :: real where "y = 5066549580791805 / 2 ^ 47"
  have f: "\<lfloor>h\<rfloor> = 7" unfolding h_def by simp
  have a: "fsub h 7 = x"
    unfolding fsub_def h_def x_def using round64_dyadic [of 337769972052787 49] by simp
  have b: "fmul x 60 = y"
    unfolding fmul_def x_def y_def using round64_dyadic [of 5066549580791805 47] by simp
  have c: "\<lfloor>y\<rfloor> = 35" "\<not> y < 0" unfolding y_def by simp_all
  have "formatTime \<lparr>rj_year = 2025, rj_month = 6, rj_day = 30, rj_hour = h\<rparr> = ''07:35''"
    by (simp add: formatTime_def Let_def f a b c toString_def padStart_def string_of_nat.simps
        digit_chars_def)
  then show ?thesis unfolding h_def .
qed





section \<open>Outcome of a provider call across the process boundary\<close>

lemma foldl_data_events:
  "list_all is_data ds \<Longrightarrow>
   foldl (on_event parse) st ds =
     st\<lparr>stdoutData := stdoutData st @ stdout_of ds, stderrData := stderrData st @ stderr_of ds\<rparr>"
proof (induction ds arbitrary: st)
  case Nil
  then show ?case by simp
next
  case (Cons ev ds)
  then show ?case by (cases ev) (simp_all add: on_event_def)
qed

lemma on_event_settled:
  "outcome st \<noteq> Pending \<Longrightarrow> outcome (on_event parse st ev) = outcome st"
  by (cases ev) (auto simp: on_event_def settle_def split: sum.splits)

lemma foldl_settled:
  "outcome st \<noteq> Pending \<Longrightarrow> outcome (foldl (on_event parse) st evs) = outcome st"
proof (induction evs arbitrary: st)
  case Nil
  then show ?case by simp
next
  case (Cons ev evs)
  then show ?case by (simp add: on_event_settled)
qed

lemma close_outcome_not_Pending: "close_outcome parse ds code \<noteq> Pending"
  by (simp add: close_outcome_def split: sum.splits)

lemma run_data_then_close:
  assumes "list_all is_data ds"
  shows "runCalculation parse (Spawned (ds @ Close code # rest)) = close_outcome parse ds code"
proof -
  let ?init = "\<lparr>stdoutData = [], stderrData = [], outcome = Pending\<rparr> :: 'a run_state"
  let ?st = "foldl (on_event parse) ?init ds"
  have st: "?st = \<lparr>stdoutData = stdout_of ds, stderrData = stderr_of ds, outcome = Pending\<rparr>"
    using foldl_data_events [OF assms, of parse ?init] by simp
  have "outcome (on_event parse ?st (Close code)) = close_outcome parse ds code"
    unfolding st by (simp add: on_event_def settle_def close_outcome_def split: sum.splits)
  moreover have "outcome (foldl (on_event parse) (on_event parse ?st (Close code)) rest) =
      outcome (on_event parse ?st (Close code))"
    by (intro foldl_settled) (simp add: calculation close_outcome_not_Pending)
  ultimately show ?thesis by (simp add: runCalculation_def)
qed

lemma run_data_then_error:
  assumes "list_all is_data ds"
  shows "runCalculation parse (Spawned (ds @ Error err # rest)) =
     Rejected (''Failed to start calculator process: '' @ err)"
proof -
  let ?init = "\<lparr>stdoutData = [], stderrData = [], outcome = Pending\<rparr> :: 'a run_state"
  let ?st = "foldl (on_event parse) ?init ds"
  have st: "?st = \<lparr>stdoutData = stdout_of ds, stderrData = stderr_of ds, outcome = Pending\<rparr>"
    using foldl_data_events [OF assms, of parse ?init] by simp
  have a: "outcome (on_event parse ?st (Error err)) =
      Rejected (''Failed to start calculator process: '' @ err)"
    unfolding st by (simp add: on_event_def settle_def)
  moreover have "outcome (foldl (on_event parse) (on_event parse ?st (Error err)) rest) =
      outcome (on_event parse ?st (Error err))"
    by (intro foldl_settled) (simp add: a)
  ultimately show ?thesis by (simp add: runCalculation_def)
qed

text \<open>
  C7. A run in which the child only writes to its streams and then closes settles the call
  with the value of the \<open>close\<close> handler: it succeeds with the document parsed from the
  whole captured standard output exactly when the exit code is 0 and that output parses;
  any other exit code (or none, after a signal) and any parse failure reject the call,
  whatever the standard output holds. An \<open>error\<close> event before the close (the child could
  not be started) rejects it, and so does a throw of \<open>spawn\<close>. Events after the first
  settlement change nothing.
\<close>

theorem runCalculation_outcome:
  "(\<forall>ds code rest. list_all is_data ds \<longrightarrow>
      runCalculation parse (Spawned (ds @ Close code # rest)) = close_outcome parse ds code) \<and>
   (\<forall>ds code rest result. list_all is_data ds \<longrightarrow>
      (runCalculation parse (Spawned (ds @ Close code # rest)) = Resolved result) =
      (code = Some 0 \<and> parse (stdout_of ds) = Inr result)) \<and>
   (\<forall>ds code rest. list_all is_data ds \<and> (code \<noteq> Some 0 \<or> (\<exists>err. parse (stdout_of ds) = Inl err)) \<longrightarrow>
      (\<exists>msg. runCalculation parse (Spawned (ds @ Close code # rest)) = Rejected msg)) \<and>
   (\<forall>ds err rest. list_all is_data ds \<longrightarrow>
      runCalculation parse (Spawned (ds @ Error err # rest)) =
        Rejected (''Failed to start calculator process: '' @ err)) \<and>
   (\<forall>err. runCalculation parse (Spawn_throws err) = Rejected (''Error running calculation: '' @ err))"
proof (intro conjI allI impI)
  fix ds code rest
  assume "list_all is_data ds"
  then show "runCalculation parse (Spawned (ds @ Close code # rest)) = close_outcome parse ds code"
    by (rule run_data_then_close)
next
  fix ds code rest result
  assume "list_all is_data ds"
  then have "runCalculation parse (Spawned (ds @ Close code # rest)) = close_outcome parse ds code"
    by (rule run_data_then_close)
  then show "(runCalculation parse (Spawned (ds @ Close code # rest)) = Resolved result) =
      (code = Some 0 \<and> parse (stdout_of ds) = Inr result)"
    by (auto simp: close_outcome_def split: sum.splits)
next
  fix ds :: "child_event list" and code :: "int option" and rest :: "child_event list"
  assume a: "list_all is_data ds \<and> (code \<noteq> Some 0 \<or> (\<exists>err. parse (stdout_of ds) = Inl err))"
  then have "runCalculation parse (Spawned (ds @ Close code # rest)) = close_outcome parse ds code"
    by (intro run_data_then_close) simp
  then show "\<exists>msg. runCalculation parse (Spawned (ds @ Close code # rest)) = Rejected msg"
    using a by (auto simp: close_outcome_def split: sum.splits)
next
  fix ds err rest
  assume "list_all is_data ds"
  then show "runCalculation parse (Spawned (ds @ Error err # rest)) =
        Rejected (''Failed to start calculator process: '' @ err)"
    by (rule run_data_then_error)
next
  fix err
  show "runCalculation parse (Spawn_throws err) = Rejected (''Error running calculation: '' @ err)"
    by (simp add: runCalculation_def)
qed

theorem runCalculation_outcome_witness:
  "list_all is_data [Stdout_data ''{'', Stderr_data ''note'', Stdout_data ''}''] \<and>
   runCalculation parse_double
     (Spawned ([Stdout_data ''{'', Stderr_data ''note'', Stdout_data ''}''] @ [Close (Some 0)]))
     = Resolved () \<and>
   (\<exists>msg. runCalculation parse_double
     (Spawned ([Stdout_data ''{'', Stderr_data ''note'', Stdout_data ''}''] @ [Close (Some 1)]))
     = Rejected msg) \<and>
   list_all is_data [Stdout_data ''{''] \<and>
   (\<exists>msg. runCalculation parse_double (Spawned ([Stdout_data ''{''] @ [Close (Some 0)]))
     = Rejected msg) \<and>
   runCalculation parse_double (Spawned ([Stdout_data ''{}''] @ Error ''ENOENT'' # [Close (Some 0)]))
     = Rejected ''Failed to start calculator process: ENOENT''"
proof -
  let ?ds = "[Stdout_data ''{'', Stderr_data ''note'', Stdout_data ''}'']"
  have d: "list_all is_data ?ds" "list_all is_data [Stdout_data ''{'']"
    "list_all is_data [Stdout_data ''{}'']" by simp_all
  have p: "parse_double (stdout_of ?ds) = Inr ()"
    "parse_double (stdout_of [Stdout_data ''{'']) = Inl ''SyntaxError''"
    by (simp_all add: parse_double_def)
  note t = runCalculation_outcome [of parse_double]
  note t2 = t [THEN conjunct2, THEN conjunct1, rule_format]
  note t3 = t [THEN conjunct2, THEN conjunct2, THEN conjunct1, rule_format]
  note t4 = t [THEN conjunct2, THEN conjunct2, THEN conjunct2, THEN conjunct1, rule_format]
  have 1: "runCalculation parse_double (Spawned (?ds @ [Close (Some 0)])) = Resolved ()"
    using t2 [OF d(1), of "Some 0" "[]" "()"] p(1) by simp
  have 2: "\<exists>msg. runCalculation parse_double (Spawned (?ds @ [Close (Some 1)])) = Rejected msg"
    by (rule t3 [of ?ds "Some 1" "[]"]) (simp add: d)
  have 3: "\<exists>msg. runCalculation parse_double (Spawned ([Stdout_data ''{''] @ [Close (Some 0)]))
      = Rejected msg"
    by (rule t3 [of "[Stdout_data ''{'']" "Some 0" "[]"]) (simp add: parse_double_def)
  have 4: "runCalculation parse_double
      (Spawned ([Stdout_data ''{}''] @ Error ''ENOENT'' # [Close (Some 0)]))
     = Rejected ''Failed to start calculator process: ENOENT''"
    using t4 [OF d(3), of "''ENOENT''" "[Close (Some 0)]"] by simp
  from d(1) 1 2 d(2) 3 4 show ?thesis by (intro conjI)
qed

section \<open>Properties of the scoring function\<close>

lemma js_rem_eq_0_iff: "0 < n \<Longrightarrow> js_rem a n = 0 \<longleftrightarrow> a mod n = 0"
  by (auto simp: js_rem_def sgn_if mod_eq_0_iff_dvd)

lemma auspiciousDays_bonus:
  "(case auspiciousDays wd of None \<Rightarrow> 0 | Some b \<Rightarrow> b) = weekday_bonus wd"
  by (simp add: auspiciousDays_def weekday_bonus_def)

lemma includes_nakshatra:
  "(case n of None \<Rightarrow> False | Some s \<Rightarrow> s \<in> set auspiciousNakshatras) \<longleftrightarrow>
   n \<in> Some ` set auspiciousNakshatras"
  by (cases n) auto

lemma calculateMuhuratScore_eq_spec:
  assumes "EVENT_TYPES eventType = Some category" "Date_parse rt (birth_date birthData) = Some birth"
  shows "calculateMuhuratScore rt date eventType birthData =
     Inr (spec_score (set (ev_auspicious category)) (calculateLunarDay date) (getDay rt date)
            (getNakshatra date) (getMonth rt date) (getMonth rt birth))"
  unfolding calculateMuhuratScore_def Let_def spec_score_def clamp_def
  using assms by (simp add: auspiciousDays_bonus includes_nakshatra js_rem_eq_0_iff)

lemma calculateMuhuratScore_no_birth_month:
  assumes "EVENT_TYPES eventType = Some category" "Date_parse rt (birth_date birthData) = None"
  shows "calculateMuhuratScore rt date eventType birthData =
     Inr (clamp 10 100
       (50 + (if calculateLunarDay date \<in> set (ev_auspicious category) then 25 else 0) +
        weekday_bonus (getDay rt date) +
        (if getNakshatra date \<in> Some ` set auspiciousNakshatras then 15 else 0)))"
  unfolding calculateMuhuratScore_def Let_def clamp_def
  using assms by (simp add: auspiciousDays_bonus includes_nakshatra)

lemma clamp_range:
  assumes "lo \<le> hi"
  shows "clamp lo hi x \<in> {lo..hi}"
  using assms by (auto simp: clamp_def)

lemma spec_score_range:
  "10 \<le> spec_score f t w n m b \<and> spec_score f t w n m b \<le> 100"
  unfolding spec_score_def using clamp_range [of 10 100] by simp

lemma spec_score_scenario:
  assumes "t \<in> f" "w = 3" "n = Some ''Rohini''" "(m - b) mod 6 \<noteq> 0"
  shows "spec_score f t w n m b = clamp 10 100 (50 + 25 + 20 + 15)"
  using assms by (simp add: spec_score_def weekday_bonus_def auspiciousNakshatras_def)

lemma LocalTime_fixed_zone: "LocalTime (fixed_zone offset fallback) t = t + offset"
  by (simp add: LocalTime_def fixed_zone_def)

lemma UTC_fixed_zone: "UTC (fixed_zone offset fallback) t = t - offset"
  by (simp add: UTC_def fixed_zone_def)

lemma Date_parse_iso:
  "iso_fields s = Some (y, m, d) \<Longrightarrow> Date_parse rt s = Some (days_from_civil y m d * msPerDay)"
  by (simp add: Date_parse_def)

text \<open>Ground facts for a concrete day: 2024-01-31T06:30:00Z seen from UTC+05:30, and a
  birth date of 1990-02-10.\<close>

lemma civil_from_days_19753: "civil_from_days 19753 = (2024, 1, 31)"
  unfolding civil_from_days_def Let_def by simp

lemma civil_from_days_7345: "civil_from_days 7345 = (1990, 2, 10)"
  unfolding civil_from_days_def Let_def by simp

lemma days_from_civil_1990_02:
  "days_from_civil 1990 2 10 = 7345" "days_from_civil 1990 2 1 = 7336"
  "days_from_civil 1990 3 1 = 7364"
  unfolding days_from_civil_def Let_def by simp_all

lemma Date_parse_1990_02_10: "Date_parse rt ''1990-02-10'' = Some 634608000000"
  by (simp add: Date_parse_def iso_fields_def digit_value_def days_in_month_def
      days_from_civil_1990_02 msPerDay_def)

lemma getMonth_ist:
  "getMonth (fixed_zone 19800000 fallback) 1706682600000 = 0"
  "getMonth (fixed_zone 19800000 fallback) 634608000000 = 1"
  by (simp_all add: getMonth_def LocalTime_fixed_zone MonthFromTime_def Day_def msPerDay_def
      civil_from_days_19753 civil_from_days_7345)

lemma getDay_ist: "getDay (fixed_zone 19800000 fallback) 1706682600000 = 3"
  by (simp add: getDay_def LocalTime_fixed_zone WeekDay_def Day_def msPerDay_def)

lemma calculateLunarDay_jan31: "calculateLunarDay 1706682600000 = 1"
  by (simp add: calculateLunarDay_def diffDays_def baseDate_def js_rem_def)

lemma getNakshatra_jan31: "getNakshatra 1706682600000 = Some ''Rohini''"
  by (simp add: getNakshatra_def diffDays_def baseDate_def js_rem_def js_index_def NAKSHATRAS_def)

lemma EVENT_TYPES_wedding:
  "EVENT_TYPES ''wedding'' =
     Some \<lparr>ev_name = ''Wedding'', ev_color = ''bg-rose-100 text-rose-800'',
           ev_auspicious = [1, 3, 5, 7, 10, 11, 13]\<rparr>"
  by (simp add: EVENT_TYPES_def)

section \<open>Properties of the horizon ranker\<close>

text \<open>
  \<open>setDate\<close> works on the local date: candidate \<open>i\<close> is the instant that the host gives
  to today's local time of day on the local calendar day \<open>i\<close> days on. In a zone with
  one offset that is \<open>i\<close> times 24 hours after today.
\<close>

lemma candidate_date_requested:
  "candidate_date rt startDate i =
     UTC rt (MakeDate (requested_day rt startDate i) (TimeWithinDay (LocalTime rt startDate)))"
  by (simp add: candidate_date_def setDate_def getDate_def Let_def requested_day_def)

lemma candidate_date_eq:
  "candidate_date rt startDate i = UTC rt (LocalTime rt startDate + int i * msPerDay)"
proof -
  define lt where "lt = LocalTime rt startDate"
  have "lt div msPerDay * msPerDay + lt mod msPerDay = lt" by simp
  then have "MakeDate (Day lt + int i) (TimeWithinDay lt) = lt + int i * msPerDay"
    by (simp add: MakeDate_def Day_def TimeWithinDay_def algebra_simps)
  then show ?thesis
    by (simp add: candidate_date_requested requested_day_def lt_def)
qed

lemma candidate_date_fixed_zone:
  "candidate_date (fixed_zone offset fallback) startDate i = startDate + int i * msPerDay"
  by (simp add: candidate_date_eq LocalTime_fixed_zone UTC_fixed_zone)



lemma calculateMuhuratScore_total:
  "EVENT_TYPES eventType \<noteq> None \<Longrightarrow>
   calculateMuhuratScore rt date eventType birthData =
     Inr (case calculateMuhuratScore rt date eventType birthData of Inl e \<Rightarrow> 0 | Inr s \<Rightarrow> s)"
  unfolding calculateMuhuratScore_def Let_def by (auto split: option.splits)

lemma calculateMuhuratScore_unknown:
  "EVENT_TYPES eventType = None \<Longrightarrow>
   calculateMuhuratScore rt date eventType birthData = Inl TypeError"
  unfolding calculateMuhuratScore_def Let_def by simp

lemma scan_days_eq:
  assumes "EVENT_TYPES eventType \<noteq> None"
  shows "scan_days rt startDate random birthData eventType days k =
     Inr (map (\<lambda>(j, i). muhurat i (candidate_date rt startDate i) eventType
                          (score_at rt startDate birthData eventType i) (random j))
            (enumerate k (filter (\<lambda>i. 60 \<le> score_at rt startDate birthData eventType i) days)))"
proof (induction days arbitrary: k)
  case Nil
  then show ?case by simp
next
  case (Cons i days)
  have s: "calculateMuhuratScore rt (candidate_date rt startDate i) eventType birthData =
      Inr (score_at rt startDate birthData eventType i)"
    unfolding score_at_def by (rule calculateMuhuratScore_total [OF assms])
  show ?case by (simp add: s Cons.IH)
qed

lemma insort_key_map:
  "insort_key f (g x) (map g ys) = map g (insort_key (\<lambda>y. f (g y)) x ys)"
  by (induction ys) auto

lemma sort_key_map: "sort_key f (map g xs) = map g (sort_key (\<lambda>y. f (g y)) xs)"
  by (induction xs) (auto simp: insort_key_map)

lemma insort_key_cong_on:
  "(\<forall>y \<in> set ys. (f x \<le> f y) = (h x \<le> h y)) \<Longrightarrow> insort_key f x ys = insort_key h x ys"
  by (induction ys) auto

lemma sort_key_lexicographic:
  fixes f :: "'a \<Rightarrow> 'b::linorder" and g :: "'a \<Rightarrow> 'c::linorder"
  assumes "sorted (map g xs)"
  shows "sort_key f xs = sort_key (\<lambda>x. (f x, g x)) xs"
  using assms
proof (induction xs)
  case Nil
  then show ?case by simp
next
  case (Cons x xs)
  then have ih: "sort_key f xs = sort_key (\<lambda>x. (f x, g x)) xs" by simp
  have "\<forall>y \<in> set (sort_key f xs). (f x \<le> f y) = ((f x, g x) \<le> (f y, g y))"
    using Cons.prems by auto
  then have "insort_key f x (sort_key f xs) = insort_key (\<lambda>x. (f x, g x)) x (sort_key f xs)"
    by (rule insort_key_cong_on)
  then show ?case by (simp add: ih)
qed

lemma m_score_muhurat: "m_score (muhurat i date eventType score r) = score"
  by (simp add: muhurat_def Let_def)

lemma m_time_muhurat:
  "m_time (muhurat i date eventType score r) = js_index timeSlots \<lfloor>r * 4\<rfloor>"
  by (simp add: muhurat_def Let_def timeSlots_def)

lemma erase_time_muhurat:
  "erase_time (muhurat i date eventType score r) = erase_time (muhurat i date eventType score 0)"
  by (simp add: erase_time_def muhurat_def Let_def)

lemma generateOptimizedMuhurats_eq:
  assumes "EVENT_TYPES eventType \<noteq> None"
  shows "generateOptimizedMuhurats rt startDate random birthData eventType =
     Inr (map (\<lambda>(j, i). muhurat i (candidate_date rt startDate i) eventType
                          (score_at rt startDate birthData eventType i) (random j))
            (ranked_draws rt startDate birthData eventType))"
proof -
  let ?G = "\<lambda>(j, i). muhurat i (candidate_date rt startDate i) eventType
                          (score_at rt startDate birthData eventType i) (random j)"
  have k: "(\<lambda>p. - m_score (?G p)) = (\<lambda>p. - score_at rt startDate birthData eventType (snd p))"
    by (auto simp: m_score_muhurat fun_eq_iff)
  show ?thesis
    unfolding generateOptimizedMuhurats_def scan_days_eq [OF assms] ranked_draws_def
    by (simp add: sort_key_map [where g = ?G] k take_map)
qed

lemma generateOptimizedMuhurats_unknown:
  assumes "EVENT_TYPES eventType = None"
  shows "generateOptimizedMuhurats rt startDate random birthData eventType = Inl TypeError"
proof -
  have "[0..<90] = 0 # [1..<90]" by (simp add: upt_conv_Cons)
  then show ?thesis
    by (simp add: generateOptimizedMuhurats_def calculateMuhuratScore_unknown [OF assms])
qed

lemma sorted_requested_days:
  "sorted (map (requested_day rt startDate) (filter P [0..<n]))"
proof -
  have "sorted (map (\<lambda>i. i) (filter P [0..<n]))" by (rule sorted_filter) simp
  then have "sorted (filter P [0..<n])" by simp
  then show ?thesis
    by (auto simp: sorted_map requested_day_def intro: sorted_wrt_mono_rel)
qed

lemma map_snd_ranked_draws:
  "map snd (ranked_draws rt startDate birthData eventType) =
   spec_rank rt startDate birthData eventType"
proof -
  let ?keep = "\<lambda>i. 60 \<le> score_at rt startDate birthData eventType i"
  let ?sc = "\<lambda>i. - score_at rt startDate birthData eventType i"
  have "map snd (sort_key (\<lambda>p. ?sc (snd p)) (enumerate 0 (filter ?keep [0..<90]))) =
      sort_key ?sc (map snd (enumerate 0 (filter ?keep [0..<90])))"
    by (rule sort_key_map [where g = snd and f = ?sc, symmetric])
  also have "\<dots> = sort_key ?sc (filter ?keep [0..<90])"
    by (simp only: map_snd_enumerate)
  also have "\<dots> = sort_key (\<lambda>i. (?sc i, requested_day rt startDate i)) (filter ?keep [0..<90])"
    by (rule sort_key_lexicographic) (rule sorted_requested_days)
  finally show ?thesis
    by (simp add: ranked_draws_def spec_rank_def take_map [symmetric])
qed

lemma erased_generateOptimizedMuhurats:
  assumes "EVENT_TYPES eventType \<noteq> None"
  shows "map_sum id (map erase_time)
           (generateOptimizedMuhurats rt startDate random birthData eventType) =
         Inr (map (day_record rt startDate birthData eventType)
                (spec_rank rt startDate birthData eventType))"
proof -
  have "map erase_time
          (map (\<lambda>(j, i). muhurat i (candidate_date rt startDate i) eventType
                             (score_at rt startDate birthData eventType i) (random j))
             (ranked_draws rt startDate birthData eventType)) =
        map (day_record rt startDate birthData eventType)
          (map snd (ranked_draws rt startDate birthData eventType))"
    by (auto simp: day_record_def erase_time_muhurat [of _ _ _ _ "random _"])
  then show ?thesis
    by (simp add: generateOptimizedMuhurats_eq [OF assms] map_snd_ranked_draws)
qed




lemma time_slot_in_range:
  fixes r :: real
  assumes "0 \<le> r" "r < 1"
  shows "js_index timeSlots \<lfloor>r * 4\<rfloor> \<in> Some ` set timeSlots"
proof -
  have "0 \<le> \<lfloor>r * 4\<rfloor>" using assms by simp
  moreover have "\<lfloor>r * 4\<rfloor> < 4" using assms by (simp add: floor_less_iff)
  ultimately have "nat \<lfloor>r * 4\<rfloor> < length timeSlots"
    unfolding timeSlots_def by (simp del: floor_less_cancel) linarith
  then have "timeSlots ! nat \<lfloor>r * 4\<rfloor> \<in> set timeSlots" by (rule nth_mem)
  then show ?thesis
    using \<open>0 \<le> \<lfloor>r * 4\<rfloor>\<close> \<open>\<lfloor>r * 4\<rfloor> < 4\<close> by (simp add: js_index_def timeSlots_def)
qed

lemma muhurat_slot_only:
  "\<lfloor>r * 4\<rfloor> = \<lfloor>r' * 4\<rfloor> \<Longrightarrow>
   muhurat i date eventType score r = muhurat i date eventType score r'"
  by (simp add: muhurat_def Let_def timeSlots_def)




lemma score_at_jan31:
  "score_at (fixed_zone 19800000 iso_only) 1706682600000
     \<lparr>birth_date = ''1990-02-10'', birth_time = ''10:00'', birth_location = ''Mumbai, India''\<rparr>
     ''wedding'' 0 = 100"
proof -
  have "calculateMuhuratScore (fixed_zone 19800000 iso_only) 1706682600000 ''wedding''
      \<lparr>birth_date = ''1990-02-10'', birth_time = ''10:00'', birth_location = ''Mumbai, India''\<rparr> =
      Inr (spec_score (set [1, 3, 5, 7, 10, 11, 13]) 1 3 (Some ''Rohini'') 0 1)"
    using calculateMuhuratScore_eq_spec [OF EVENT_TYPES_wedding,
        of "fixed_zone 19800000 iso_only" _ 634608000000 "1706682600000"]
    by (simp add: Date_parse_1990_02_10 calculateLunarDay_jan31 getDay_ist getNakshatra_jan31
        getMonth_ist)
  also have "spec_score (set [1, 3, 5, 7, 10, 11, 13]) 1 3 (Some ''Rohini'') 0 1 = 100"
    by (simp add: spec_score_def weekday_bonus_def auspiciousNakshatras_def clamp_def)
  finally show ?thesis
    by (simp add: score_at_def candidate_date_fixed_zone)
qed

lemma ranked_draws_jan31_nonempty:
  "ranked_draws (fixed_zone 19800000 iso_only) 1706682600000
     \<lparr>birth_date = ''1990-02-10'', birth_time = ''10:00'', birth_location = ''Mumbai, India''\<rparr>
     ''wedding'' \<noteq> []"
proof -
  let ?bd = "\<lparr>birth_date = ''1990-02-10'', birth_time = ''10:00'',
              birth_location = ''Mumbai, India''\<rparr>"
  let ?keep = "\<lambda>i. 60 \<le> score_at (fixed_zone 19800000 iso_only) 1706682600000 ?bd ''wedding'' i"
  have "0 \<in> set (filter ?keep [0..<90])" by (simp add: score_at_jan31)
  then have "filter ?keep [0..<90] \<noteq> []" by (metis empty_iff list.set(1))
  then have "length (ranked_draws (fixed_zone 19800000 iso_only) 1706682600000 ?bd ''wedding'') \<noteq> 0"
    unfolding ranked_draws_def by simp
  then show ?thesis by simp
qed

lemma hd_time_constant_draw:
  assumes "EVENT_TYPES eventType \<noteq> None" "ranked_draws rt startDate birthData eventType \<noteq> []"
  shows "m_time (hd (projr (generateOptimizedMuhurats rt startDate (\<lambda>k. c) birthData eventType))) =
     js_index timeSlots \<lfloor>c * 4\<rfloor>"
  unfolding generateOptimizedMuhurats_eq [OF assms(1)]
  using assms(2) by (simp add: hd_map m_time_muhurat split: prod.splits)

text \<open>
  C3 as stated fails: the display time slot is drawn with \<open>Math.random()\<close>. With the same
  time zone, today, birth profile and event type, a run whose draws are all 0 and a run
  whose draws are all 3/4 return different lists; the first candidate is shown at 06:00 in
  one and at 11:45 in the other.
\<close>

theorem generateOptimizedMuhurats_random_slot_counterexample:
  "generateOptimizedMuhurats (fixed_zone 19800000 iso_only) 1706682600000 (\<lambda>k. 0)
     \<lparr>birth_date = ''1990-02-10'', birth_time = ''10:00'', birth_location = ''Mumbai, India''\<rparr>
     ''wedding'' \<noteq>
   generateOptimizedMuhurats (fixed_zone 19800000 iso_only) 1706682600000 (\<lambda>k. 3 / 4)
     \<lparr>birth_date = ''1990-02-10'', birth_time = ''10:00'', birth_location = ''Mumbai, India''\<rparr>
     ''wedding'' \<and>
   m_time (hd (projr (generateOptimizedMuhurats (fixed_zone 19800000 iso_only) 1706682600000 (\<lambda>k. 0)
     \<lparr>birth_date = ''1990-02-10'', birth_time = ''10:00'', birth_location = ''Mumbai, India''\<rparr>
     ''wedding''))) = Some ''06:00'' \<and>
   m_time (hd (projr (generateOptimizedMuhurats (fixed_zone 19800000 iso_only) 1706682600000 (\<lambda>k. 3 / 4)
     \<lparr>birth_date = ''1990-02-10'', birth_time = ''10:00'', birth_location = ''Mumbai, India''\<rparr>
     ''wedding''))) = Some ''11:45''"
proof -
  let ?bd = "\<lparr>birth_date = ''1990-02-10'', birth_time = ''10:00'',
              birth_location = ''Mumbai, India''\<rparr>"
  have ev: "EVENT_TYPES ''wedding'' \<noteq> None" by (simp add: EVENT_TYPES_wedding)
  have a: "m_time (hd (projr (generateOptimizedMuhurats (fixed_zone 19800000 iso_only) 1706682600000 (\<lambda>k. 0) ?bd
      ''wedding''))) = Some ''06:00''"
    unfolding hd_time_constant_draw [OF ev ranked_draws_jan31_nonempty]
    by (simp add: js_index_def timeSlots_def)
  have "\<lfloor>(3 / 4 :: real) * 4\<rfloor> = 3" by simp
  then have b: "m_time (hd (projr (generateOptimizedMuhurats (fixed_zone 19800000 iso_only) 1706682600000 (\<lambda>k. 3 / 4) ?bd
      ''wedding''))) = Some ''11:45''"
    unfolding hd_time_constant_draw [OF ev ranked_draws_jan31_nonempty]
    by (simp add: js_index_def timeSlots_def)
  have "generateOptimizedMuhurats (fixed_zone 19800000 iso_only) 1706682600000 (\<lambda>k. 0) ?bd ''wedding'' \<noteq>
      generateOptimizedMuhurats (fixed_zone 19800000 iso_only) 1706682600000 (\<lambda>k. 3 / 4) ?bd ''wedding''"
  proof
    assume "generateOptimizedMuhurats (fixed_zone 19800000 iso_only) 1706682600000 (\<lambda>k. 0) ?bd ''wedding'' =
      generateOptimizedMuhurats (fixed_zone 19800000 iso_only) 1706682600000 (\<lambda>k. 3 / 4) ?bd ''wedding''"
    then have "Some ''06:00'' = Some ''11:45''" using a b by simp
    then show False by simp
  qed
  then show ?thesis using a b by simp
qed

text \<open>
  C3, amended. Two calls of the ranker with the same birth profile, event type and today
  reference return the same candidates with the same scores in the same order, equal in
  every field but the display time slot. Each slot is one of the four canonical slots and is
  drawn with \<open>Math.random()\<close>: the two results are identical when the draws of the two
  calls select the same slots.
\<close>

theorem generateOptimizedMuhurats_determinism:
  "map_sum id (map erase_time)
     (generateOptimizedMuhurats rt startDate random birthData eventType) =
   map_sum id (map erase_time)
     (generateOptimizedMuhurats rt startDate random' birthData eventType) \<and>
   ((\<forall>k. \<lfloor>random k * 4\<rfloor> = \<lfloor>random' k * 4\<rfloor>) \<longrightarrow>
      generateOptimizedMuhurats rt startDate random birthData eventType =
      generateOptimizedMuhurats rt startDate random' birthData eventType) \<and>
   ((\<forall>k. 0 \<le> random k \<and> random k < 1) \<longrightarrow>
      (\<forall>out. generateOptimizedMuhurats rt startDate random birthData eventType = Inr out \<longrightarrow>
         m_time ` set out \<subseteq> Some ` set timeSlots))"
proof (cases "EVENT_TYPES eventType = None")
  case True
  then show ?thesis by (simp add: generateOptimizedMuhurats_unknown)
next
  case False
  show ?thesis
  proof (intro conjI impI)
    show "map_sum id (map erase_time)
        (generateOptimizedMuhurats rt startDate random birthData eventType) =
      map_sum id (map erase_time)
        (generateOptimizedMuhurats rt startDate random' birthData eventType)"
      by (simp only: erased_generateOptimizedMuhurats [OF False])
  next
    assume "\<forall>k. \<lfloor>random k * 4\<rfloor> = \<lfloor>random' k * 4\<rfloor>"
    then have "\<And>i d e s j. muhurat i d e s (random j) = muhurat i d e s (random' j)"
      by (intro muhurat_slot_only) simp
    then show "generateOptimizedMuhurats rt startDate random birthData eventType =
      generateOptimizedMuhurats rt startDate random' birthData eventType"
      by (simp add: generateOptimizedMuhurats_eq [OF False])
  next
    assume r: "\<forall>k. 0 \<le> random k \<and> random k < 1"
    show "\<forall>out. generateOptimizedMuhurats rt startDate random birthData eventType = Inr out \<longrightarrow>
         m_time ` set out \<subseteq> Some ` set timeSlots"
      unfolding generateOptimizedMuhurats_eq [OF False]
      using r by (auto simp: m_time_muhurat intro!: time_slot_in_range)
  qed
qed

theorem generateOptimizedMuhurats_determinism_witness:
  "(\<forall>k. \<lfloor>(\<lambda>k. 1 / 8 :: real) k * 4\<rfloor> = \<lfloor>(\<lambda>k. 0 :: real) k * 4\<rfloor>) \<and>
   (\<forall>k. 0 \<le> (\<lambda>k. 1 / 8 :: real) k \<and> (\<lambda>k. 1 / 8 :: real) k < 1) \<and>
   generateOptimizedMuhurats (fixed_zone 19800000 iso_only) 1706682600000 (\<lambda>k. 1 / 8)
     \<lparr>birth_date = ''1990-02-10'', birth_time = ''10:00'', birth_location = ''Mumbai, India''\<rparr>
     ''wedding'' =
   generateOptimizedMuhurats (fixed_zone 19800000 iso_only) 1706682600000 (\<lambda>k. 0)
     \<lparr>birth_date = ''1990-02-10'', birth_time = ''10:00'', birth_location = ''Mumbai, India''\<rparr>
     ''wedding'' \<and>
   (\<exists>out. generateOptimizedMuhurats (fixed_zone 19800000 iso_only) 1706682600000 (\<lambda>k. 1 / 8)
      \<lparr>birth_date = ''1990-02-10'', birth_time = ''10:00'', birth_location = ''Mumbai, India''\<rparr>
      ''wedding'' = Inr out \<and> out \<noteq> [] \<and> m_time ` set out \<subseteq> Some ` set timeSlots)"
proof -
  let ?bd = "\<lparr>birth_date = ''1990-02-10'', birth_time = ''10:00'',
              birth_location = ''Mumbai, India''\<rparr>"
  let ?g = "generateOptimizedMuhurats (fixed_zone 19800000 iso_only) 1706682600000 (\<lambda>k. 1 / 8) ?bd ''wedding''"
  have f: "\<forall>k::nat. \<lfloor>(1 / 8 :: real) * 4\<rfloor> = \<lfloor>(0 :: real) * 4\<rfloor>" by simp
  have r: "\<forall>k::nat. 0 \<le> (1 / 8 :: real) \<and> (1 / 8 :: real) < 1" by simp
  note t = generateOptimizedMuhurats_determinism
    [of "fixed_zone 19800000 iso_only" 1706682600000 "\<lambda>k. 1 / 8" ?bd "''wedding''" "\<lambda>k. 0"]
  have e: "?g = generateOptimizedMuhurats (fixed_zone 19800000 iso_only) 1706682600000 (\<lambda>k. 0) ?bd ''wedding''"
    using t f by blast
  have ev: "EVENT_TYPES ''wedding'' \<noteq> None" by (simp add: EVENT_TYPES_wedding)
  obtain out where out: "?g = Inr out" "out \<noteq> []"
    using generateOptimizedMuhurats_eq [OF ev, of "fixed_zone 19800000 iso_only" 1706682600000 "\<lambda>k. 1 / 8" ?bd]
      ranked_draws_jan31_nonempty by simp
  have "m_time ` set out \<subseteq> Some ` set timeSlots"
    using t r out(1) by blast
  then show ?thesis using f r e out by blast
qed

section \<open>The birth profile in the score\<close>

lemma calculateMuhuratScore_birth_profile:
  assumes "map_option (getMonth rt) (Date_parse rt (birth_date b)) =
     map_option (getMonth rt) (Date_parse rt (birth_date b'))"
  shows "calculateMuhuratScore rt date eventType b = calculateMuhuratScore rt date eventType b'"
  unfolding calculateMuhuratScore_def assms by (rule refl)

text \<open>Ground facts: 2024-10-06T12:00:00Z seen from UTC-05:00, and two birth dates in May
  1990.\<close>

lemma civil_from_days_west:
  "civil_from_days 7424 = (1990, 4, 30)" "civil_from_days 7438 = (1990, 5, 14)"
  "civil_from_days 20002 = (2024, 10, 6)"
  unfolding civil_from_days_def Let_def by simp_all

lemma days_from_civil_1990_05:
  "days_from_civil 1990 5 1 = 7425" "days_from_civil 1990 5 15 = 7439"
  "days_from_civil 1990 6 1 = 7456"
  unfolding days_from_civil_def Let_def by simp_all

lemma iso_fields_1990_05:
  "iso_fields ''1990-05-01'' = Some (1990, 5, 1)" "iso_fields ''1990-05-15'' = Some (1990, 5, 15)"
  by (simp_all add: iso_fields_def digit_value_def days_in_month_def days_from_civil_1990_05)

lemma Date_parse_1990_05:
  "Date_parse rt ''1990-05-01'' = Some 641520000000"
  "Date_parse rt ''1990-05-15'' = Some 642729600000"
  by (simp_all add: Date_parse_def iso_fields_1990_05 days_from_civil_1990_05 msPerDay_def)

lemma getMonth_west:
  "getMonth (fixed_zone (- 18000000) fallback) 641520000000 = 3"
  "getMonth (fixed_zone (- 18000000) fallback) 642729600000 = 4"
  "getMonth (fixed_zone (- 18000000) fallback) 1728216000000 = 9"
  by (simp_all add: getMonth_def LocalTime_fixed_zone MonthFromTime_def Day_def msPerDay_def
      civil_from_days_west)

lemma score_inputs_oct6:
  "getDay (fixed_zone (- 18000000) fallback) 1728216000000 = 0"
  "calculateLunarDay 1728216000000 = 10"
  "getNakshatra 1728216000000 = Some ''Magha''"
  by (simp_all add: getDay_def LocalTime_fixed_zone WeekDay_def Day_def msPerDay_def
      calculateLunarDay_def getNakshatra_def diffDays_def baseDate_def js_rem_def js_index_def
      NAKSHATRAS_def)

lemma score_oct6_birth_1990_05_01:
  "calculateMuhuratScore (fixed_zone (- 18000000) fallback) 1728216000000 ''wedding''
     \<lparr>birth_date = ''1990-05-01'', birth_time = ''10:00'', birth_location = ''Bogota, Colombia''\<rparr>
     = Inr 85"
  using calculateMuhuratScore_eq_spec [OF EVENT_TYPES_wedding,
      of "fixed_zone (- 18000000) fallback" _ 641520000000 1728216000000]
  by (simp add: Date_parse_1990_05 getMonth_west score_inputs_oct6 spec_score_def
      weekday_bonus_def auspiciousNakshatras_def clamp_def)

lemma score_oct6_birth_1990_05_15:
  "calculateMuhuratScore (fixed_zone (- 18000000) fallback) 1728216000000 ''wedding''
     \<lparr>birth_date = ''1990-05-15'', birth_time = ''10:00'', birth_location = ''Bogota, Colombia''\<rparr>
     = Inr 75"
  using calculateMuhuratScore_eq_spec [OF EVENT_TYPES_wedding,
      of "fixed_zone (- 18000000) fallback" _ 642729600000 1728216000000]
  by (simp add: Date_parse_1990_05 getMonth_west score_inputs_oct6 spec_score_def
      weekday_bonus_def auspiciousNakshatras_def clamp_def)

text \<open>
  C10 at a failing input. The runtime's zone is UTC-05:00, whatever it makes of strings
  outside the ISO date form. Two birth profiles that differ
  only in the day of May 1990: \<open>new Date('1990-05-01')\<close> is midnight UTC and so 19:00 of
  April 30 local time, and \<open>getMonth\<close> answers 3 (April); for \<open>'1990-05-15'\<close> it answers 4.
  On a candidate date in October (month 9) the first profile gets the alignment bonus and
  the second does not.
\<close>

theorem calculateMuhuratScore_same_birth_month_differs:
  "iso_fields ''1990-05-01'' = Some (1990, 5, 1) \<and>
   iso_fields ''1990-05-15'' = Some (1990, 5, 15) \<and>
   map_option (getMonth (fixed_zone (- 18000000) fallback))
     (Date_parse (fixed_zone (- 18000000) fallback) ''1990-05-01'') = Some 3 \<and>
   map_option (getMonth (fixed_zone (- 18000000) fallback))
     (Date_parse (fixed_zone (- 18000000) fallback) ''1990-05-15'') = Some 4 \<and>
   calculateMuhuratScore (fixed_zone (- 18000000) fallback) 1728216000000 ''wedding''
     \<lparr>birth_date = ''1990-05-01'', birth_time = ''10:00'', birth_location = ''Bogota, Colombia''\<rparr>
     = Inr 85 \<and>
   calculateMuhuratScore (fixed_zone (- 18000000) fallback) 1728216000000 ''wedding''
     \<lparr>birth_date = ''1990-05-15'', birth_time = ''10:00'', birth_location = ''Bogota, Colombia''\<rparr>
     = Inr 75"
  using score_oct6_birth_1990_05_01 [of fallback] score_oct6_birth_1990_05_15 [of fallback]
  by (simp add: iso_fields_1990_05 Date_parse_1990_05 getMonth_west)

text \<open>
  C1 at a failing input, the first of the two profiles above. The code returns 85: it reads
  the birth month off \<open>new Date('1990-05-01').getMonth()\<close>, which is 3 (April) in this
  zone, and October less April is a multiple of 6. The formula of the claim with the month
  of the birth date, May (4 when months count from 0), gives 75: base 50, tithi 10 is
  favorable for a wedding (+25), Sunday has no bonus, Magha is not in the auspicious set,
  and October less May is no multiple of 6.
\<close>

theorem calculateMuhuratScore_birth_month_off:
  "EVENT_TYPES ''wedding'' =
     Some \<lparr>ev_name = ''Wedding'', ev_color = ''bg-rose-100 text-rose-800'',
           ev_auspicious = [1, 3, 5, 7, 10, 11, 13]\<rparr> \<and>
   iso_fields ''1990-05-01'' = Some (1990, 5, 1) \<and>
   calculateMuhuratScore (fixed_zone (- 18000000) fallback) 1728216000000 ''wedding''
     \<lparr>birth_date = ''1990-05-01'', birth_time = ''10:00'', birth_location = ''Bogota, Colombia''\<rparr>
     = Inr 85 \<and>
   spec_score (set [1, 3, 5, 7, 10, 11, 13]) (calculateLunarDay 1728216000000)
     (getDay (fixed_zone (- 18000000) fallback) 1728216000000) (getNakshatra 1728216000000)
     (getMonth (fixed_zone (- 18000000) fallback) 1728216000000) (5 - 1) = 75"
  using score_oct6_birth_1990_05_01 [of fallback]
  by (simp add: EVENT_TYPES_wedding iso_fields_1990_05 getMonth_west score_inputs_oct6
      spec_score_def weekday_bonus_def auspiciousNakshatras_def clamp_def)

end
